theory Spec2Isabelle
  imports Complex_Main
begin

section \<open>Python values, errors and effects\<close>

text \<open>
  Coordinates, heights, velocities and delays are Python floats; they are modelled as
  \<^typ>\<open>real\<close>, so the comparisons and the subtraction of the classifier are exact.
  Body identifiers, joint indices and step counts are Python ints (\<^typ>\<open>int\<close>).
\<close>

datatype error =
    ValueError string
  | IndexError
  | TypeError string
  | ZeroDivisionError
  | OverflowError
  | PyBulletError string

datatype control_mode = POSITION_CONTROL

datatype joint_type =
  JOINT_REVOLUTE | JOINT_PRISMATIC | JOINT_SPHERICAL | JOINT_PLANAR | JOINT_FIXED

datatype geom = GEOM_BOX | GEOM_CYLINDER

text \<open>
  Every call that changes the physics engine, pauses the process or prints is recorded,
  in order, with its arguments. \<open>ChangeDynamics body link mass lateralFriction
  spinningFriction\<close> carries the keyword arguments that were given.
\<close>

datatype call =
    LoadURDF string "real list" "real list" bool
  | ChangeDynamics int int "real option" "real option" "real option"
  | SetJointMotorControl2 int int control_mode real real
  | ResetJointState int int real
  | ResetBaseVelocity int "real list"
  | ResetBasePositionAndOrientation int "real list" "real list"
  | CreateVisualShape geom "real list" "real list"
  | CreateCollisionShape geom "real list"
  | CreateMultiBody real "real list" int int "real list" bool
  | StepSimulation
  | Sleep real
  | Print string

text \<open>
  A computation yields the calls it issued and either the exception that ended it or its
  value. The calls issued before an exception stay in the trace.
\<close>

type_synonym 'a io = "call list \<times> (error + 'a)"

definition io_return :: "'a \<Rightarrow> 'a io" where
  "io_return x = ([], Inr x)"

definition io_raise :: "error \<Rightarrow> 'a io" where
  "io_raise e = ([], Inl e)"

definition io_call :: "call \<Rightarrow> unit io" where
  "io_call c = ([c], Inr ())"

definition io_bind :: "'a io \<Rightarrow> ('a \<Rightarrow> 'b io) \<Rightarrow> 'b io" where
  "io_bind m f =
     (case m of
        (t, Inl e) \<Rightarrow> (t, Inl e)
      | (t, Inr x) \<Rightarrow> (case f x of (t', r) \<Rightarrow> (t @ t', r)))"

definition io_then :: "'a io \<Rightarrow> 'b io \<Rightarrow> 'b io" where
  "io_then m n = io_bind m (\<lambda>_. n)"

text \<open>\<open>for x in xs: body(x)\<close>; an exception in the body leaves the loop.\<close>

fun for_each :: "'a list \<Rightarrow> ('a \<Rightarrow> unit io) \<Rightarrow> unit io" where
  "for_each [] body = io_return ()"
| "for_each (x # xs) body = io_then (body x) (for_each xs body)"

text \<open>\<open>range(n)\<close> for a Python int \<open>n\<close>: empty when \<open>n \<le> 0\<close>.\<close>

definition py_range :: "int \<Rightarrow> int list" where
  "py_range n = [0..n - 1]"

text \<open>
  \<open>time.sleep(t)\<close> raises \<open>ValueError\<close> for a negative duration. CPython keeps the
  duration as a signed 64-bit count of nanoseconds and raises \<open>OverflowError\<close> for a
  duration that does not fit. The operating system's clock may in addition refuse a
  duration close below that limit; \<open>sleep_safe\<close>, about 31 years, is a duration below
  which none is refused, and the properties of variable delays are stated up to it.
\<close>

definition sleep_limit :: real where
  "sleep_limit = 2 ^ 63 / 10 ^ 9"

definition sleep_safe :: real where
  "sleep_safe = 10 ^ 9"

definition time_sleep :: "real \<Rightarrow> unit io" where
  "time_sleep t =
     (if t < 0 then io_raise (ValueError ''sleep length must be non-negative'')
      else if sleep_limit \<le> t then io_raise OverflowError
      else io_call (Sleep t))"

text \<open>\<open>xs[i]\<close> for a non-negative constant index.\<close>

definition subscript :: "'a list \<Rightarrow> nat \<Rightarrow> error + 'a" where
  "subscript xs i = (if i < length xs then Inr (xs ! i) else Inl IndexError)"

text \<open>\<open>a / b\<close> on floats.\<close>

definition truediv :: "real \<Rightarrow> real \<Rightarrow> error + real" where
  "truediv a b = (if b = 0 then Inl ZeroDivisionError else Inr (a / b))"

text \<open>
  \<open>a / n\<close> for a float \<open>a\<close> and an int \<open>n\<close>: the int is converted to a float first,
  which raises \<open>OverflowError\<close> when it rounds beyond the largest double, that is from
  \<open>2 ^ 1024 - 2 ^ 970\<close> on in absolute value.
\<close>

definition float_int_bound :: int where
  "float_int_bound = 2 ^ 1024 - 2 ^ 970"

definition int_to_float :: "int \<Rightarrow> error + real" where
  "int_to_float n =
     (if - float_int_bound < n \<and> n < float_int_bound then Inr (real_of_int n)
      else Inl OverflowError)"

definition truediv_int :: "real \<Rightarrow> int \<Rightarrow> error + real" where
  "truediv_int a n = (case int_to_float n of Inl e \<Rightarrow> Inl e | Inr b \<Rightarrow> truediv a b)"

section \<open>The physics engine as seen by the code\<close>

text \<open>
  The engine is an external collaborator. Its answers to the queries the code makes are
  the fields of a record: whether the client is connected, the base pose of a body (a
  3-tuple and a quaternion), the joint count and joint types of a body, and the
  identifiers it hands out when a model is loaded (\<open>None\<close>: loading fails) or a shape or
  body is created. Apart from the connection test, the queries are taken to be answered.
\<close>

type_synonym vec3 = "real \<times> real \<times> real"
type_synonym quat = "real \<times> real \<times> real \<times> real"

record engine =
  isConnected :: bool
  getBasePositionAndOrientation :: "int \<Rightarrow> vec3 \<times> quat"
  getNumJoints :: "int \<Rightarrow> int"
  getJointInfo :: "int \<Rightarrow> int \<Rightarrow> joint_type"
  loadURDF :: "string \<Rightarrow> int option"
  createVisualShape :: int
  createCollisionShape :: int
  createMultiBody :: int

definition vec3_list :: "vec3 \<Rightarrow> real list" where
  "vec3_list v = (case v of (x, y, z) \<Rightarrow> [x, y, z])"

definition vec3_z :: "vec3 \<Rightarrow> real" where
  "vec3_z v = (case v of (x, y, z) \<Rightarrow> z)"

section \<open>The outcome classifier and the result store (core/performance_metrics.py)\<close>

text \<open>
  The result file is read and written through Python's \<open>csv\<close> module; a file is
  modelled by the rows \<open>csv.reader\<close> yields for it, each row a list of strings. The file
  system maps a path to the rows of the regular file there.
\<close>

type_synonym row = "string list"
type_synonym filesystem = "string \<Rightarrow> row list option"

record PerformanceMetrics =
  output_path :: string
  column_names :: "string list"

definition isfile :: "filesystem \<Rightarrow> string \<Rightarrow> bool" where
  "isfile fs path = (fs path \<noteq> None)"

definition header :: "string list" where
  "header =
     [''Position X'', ''Position Y'', ''Position Z'',
      ''Orientation Roll'', ''Orientation Pitch'', ''Orientation Yaw'',
      ''Initial Z'', ''Final Z'', ''Delta Z'',
      ''Success'']"

text \<open>\<open>open(path, mode="w")\<close> truncates; \<open>writerow\<close> then writes one row.\<close>

definition initialize_csv :: "PerformanceMetrics \<Rightarrow> filesystem \<Rightarrow> filesystem" where
  "initialize_csv self fs =
     (if \<not> isfile fs (output_path self)
      then fs(output_path self \<mapsto> [column_names self])
      else fs)"

definition PerformanceMetrics_init ::
  "string \<Rightarrow> filesystem \<Rightarrow> PerformanceMetrics \<times> filesystem" where
  "PerformanceMetrics_init path fs =
     (let self = \<lparr>output_path = path, column_names = header\<rparr>
      in (self, initialize_csv self fs))"

definition assess_grasp_quality ::
  "engine \<Rightarrow> int \<Rightarrow> real list \<Rightarrow> (int \<times> real \<times> real list) io" where
  "assess_grasp_quality p target_id start_position =
     io_then (time_sleep 0.5)
       (if \<not> isConnected p then io_return (0, 0, start_position)
        else
          (case getBasePositionAndOrientation p target_id of (end_position, _) \<Rightarrow>
             (case subscript start_position 2 of
                Inl err \<Rightarrow> io_raise err
              | Inr z_initial \<Rightarrow>
                  (let z_final = vec3_z end_position;
                       vertical_delta = z_final - z_initial;
                       status_code =
                         (if vertical_delta > 0.1 then 1
                          else if 0.05 \<le> vertical_delta \<and> vertical_delta \<le> 0.1 then 2
                          else 0)
                   in io_return (status_code, vertical_delta, vec3_list end_position)))))"

text \<open>
  \<open>record_attempt\<close> receives the ten numbers of a trial. \<open>str\<close> is Python's \<open>str\<close> on
  those numbers; \<open>csv.writer\<close> writes a number as its \<open>str\<close>, which contains no
  delimiter, quote or line break and is read back unchanged. Opening a missing file in
  append mode creates it.
\<close>

definition read_records :: "filesystem \<Rightarrow> string \<Rightarrow> row set" where
  "read_records fs path =
     (case fs path of None \<Rightarrow> {} | Some rows \<Rightarrow> set (drop 1 rows))"

definition append_row :: "filesystem \<Rightarrow> string \<Rightarrow> row \<Rightarrow> filesystem" where
  "append_row fs path r =
     fs(path \<mapsto> (case fs path of None \<Rightarrow> [] | Some rows \<Rightarrow> rows) @ [r])"

text \<open>The rows after the first, in file order: what the reader collects.\<close>

definition data_rows :: "filesystem \<Rightarrow> string \<Rightarrow> row list" where
  "data_rows fs path = (case fs path of None \<Rightarrow> [] | Some rows \<Rightarrow> drop 1 rows)"

definition duplicate_warning :: call where
  "duplicate_warning = Print ''[WARNING] Duplicate entry detected - skipping''"

definition record_attempt ::
  "('v \<Rightarrow> string) \<Rightarrow> PerformanceMetrics \<Rightarrow> 'v list \<Rightarrow> filesystem \<Rightarrow> filesystem \<times> call list" where
  "record_attempt str self metrics_data fs =
     (let existing_records = read_records fs (output_path self);
          record_tuple = map str metrics_data
      in if record_tuple \<notin> existing_records
         then (append_row fs (output_path self) (map str metrics_data), [])
         else (fs, [duplicate_warning]))"

text \<open>\<open>str\<close> on Python ints, for concrete trials.\<close>

fun digits :: "nat \<Rightarrow> string" where
  "digits n =
     (if n < 10 then [''0123456789'' ! n]
      else digits (n div 10) @ [''0123456789'' ! (n mod 10)])"

declare digits.simps [simp del]

definition str_int :: "int \<Rightarrow> string" where
  "str_int i = (if i < 0 then CHR ''-'' # digits (nat (- i)) else digits (nat i))"

section \<open>The manipulator interface (grippers/manipulator_base.py)\<close>

record ManipulatorInterface =
  spawn_position :: "real list"
  spawn_orientation :: "real list"
  model_path :: string
  body_id :: int
  movable_joints :: "int list"
  static_joints :: "int list"

text \<open>\<open>p.loadURDF\<close>: the engine hands out the body identifier, or loading fails.\<close>

definition load_urdf :: "engine \<Rightarrow> string \<Rightarrow> real list \<Rightarrow> real list \<Rightarrow> bool \<Rightarrow> int io" where
  "load_urdf p file base_position base_orientation fixed =
     ([LoadURDF file base_position base_orientation fixed],
      (case loadURDF p file of
         None \<Rightarrow> Inl (PyBulletError ''Cannot load URDF file.'')
       | Some b \<Rightarrow> Inr b))"

text \<open>The loop of \<open>_extract_joint_indices\<close> and \<open>get_joint_info\<close> over the joint indices.\<close>

fun joint_loop ::
  "(int \<Rightarrow> joint_type) \<Rightarrow> int list \<Rightarrow> int list \<times> int list \<Rightarrow> int list \<times> int list" where
  "joint_loop info [] acc = acc"
| "joint_loop info (i # rest) (movable, static) =
     joint_loop info rest
       (if info i \<noteq> JOINT_FIXED then (movable @ [i], static) else (movable, static @ [i]))"

definition extract_joint_indices :: "engine \<Rightarrow> int \<Rightarrow> int list \<times> int list" where
  "extract_joint_indices p body =
     joint_loop (getJointInfo p body) (py_range (getNumJoints p body)) ([], [])"

definition ManipulatorInterface_init ::
  "engine \<Rightarrow> real list \<Rightarrow> real list \<Rightarrow> string \<Rightarrow> ManipulatorInterface io" where
  "ManipulatorInterface_init p spawn_pos spawn_orn path =
     io_bind (load_urdf p path spawn_pos spawn_orn False) (\<lambda>body.
       io_then (io_call (ChangeDynamics body (- 1) (Some 0) None None))
         (case extract_joint_indices p body of (movable, static) \<Rightarrow>
            io_return
              \<lparr>spawn_position = spawn_pos, spawn_orientation = spawn_orn, model_path = path,
               body_id = body, movable_joints = movable, static_joints = static\<rparr>))"

definition run_simulation :: "int \<Rightarrow> real \<Rightarrow> unit io" where
  "run_simulation num_steps step_delay =
     for_each (py_range num_steps) (\<lambda>_. io_then (io_call StepSimulation) (time_sleep step_delay))"

definition relocate :: "ManipulatorInterface \<Rightarrow> real list \<Rightarrow> real list \<Rightarrow> unit io" where
  "relocate self new_position new_orientation =
     io_call (ResetBasePositionAndOrientation (body_id self) new_position new_orientation)"

text \<open>The two guarded quotients of \<open>execute_vertical_motion\<close>, under the names of its locals.\<close>

definition height_increment :: "real \<Rightarrow> real \<Rightarrow> int \<Rightarrow> error + real" where
  "height_increment target_height initial_height motion_steps =
     (if motion_steps > 0 then truediv_int (target_height - initial_height) motion_steps
      else Inr 0)"

definition vertical_velocity :: "real \<Rightarrow> real \<Rightarrow> error + real" where
  "vertical_velocity increment step_time =
     (if step_time > 0 then truediv increment step_time else Inr 0)"

definition io_lift :: "error + 'a \<Rightarrow> 'a io" where
  "io_lift r = ([], r)"

definition execute_vertical_motion ::
  "engine \<Rightarrow> ManipulatorInterface \<Rightarrow> real \<Rightarrow> int \<Rightarrow> real \<Rightarrow> unit io" where
  "execute_vertical_motion p self target_height motion_steps step_time =
     (case getBasePositionAndOrientation p (body_id self) of (current_pose, current_rot) \<Rightarrow>
        io_bind (io_lift (height_increment target_height (vec3_z current_pose) motion_steps))
          (\<lambda>increment.
        io_bind (io_lift (vertical_velocity increment step_time)) (\<lambda>velocity.
        io_then
          (for_each (py_range motion_steps) (\<lambda>_.
             io_then (io_call (ResetBaseVelocity (body_id self) [0, 0, velocity]))
               (io_then (io_call StepSimulation) (time_sleep step_time))))
          (io_call (ResetBaseVelocity (body_id self) [0, 0, 0])))))"

definition TwoFingerManipulator_init ::
  "engine \<Rightarrow> real list \<Rightarrow> real list \<Rightarrow> ManipulatorInterface io" where
  "TwoFingerManipulator_init p spawn_pos spawn_orn =
     ManipulatorInterface_init p spawn_pos spawn_orn ''pr2_gripper.urdf''"

definition activate :: "ManipulatorInterface \<Rightarrow> unit io" where
  "activate self =
     for_each (zip (movable_joints self) [0.548, 0.548]) (\<lambda>(joint_id, angle).
       io_call (SetJointMotorControl2 (body_id self) joint_id POSITION_CONTROL angle 500))"

definition deactivate :: "ManipulatorInterface \<Rightarrow> unit io" where
  "deactivate self =
     for_each (zip (movable_joints self) [0.0, 0.0]) (\<lambda>(joint_id, angle).
       io_call (SetJointMotorControl2 (body_id self) joint_id POSITION_CONTROL angle 500))"

section \<open>The grippers (robots/gripper.py)\<close>

datatype gripper_class = PR2Gripper | SDHGripper | CustomGripper

record BaseGripper =
  gripper_class :: gripper_class
  position :: "real list"
  orientation :: "real list"
  urdf_file :: string
  gripper :: int
  active_joints :: "int list"
  fixed_joints :: "int list"

definition get_joint_info :: "engine \<Rightarrow> int \<Rightarrow> int list \<times> int list" where
  "get_joint_info p body =
     joint_loop (getJointInfo p body) (py_range (getNumJoints p body)) ([], [])"

definition BaseGripper_init ::
  "engine \<Rightarrow> gripper_class \<Rightarrow> real list \<Rightarrow> real list \<Rightarrow> string \<Rightarrow> BaseGripper io" where
  "BaseGripper_init p cls pos orn file =
     io_bind (load_urdf p file pos orn False) (\<lambda>body.
       io_then (io_call (ChangeDynamics body (- 1) (Some 0) None None))
         (case get_joint_info p body of (active, fixed) \<Rightarrow>
            io_return
              \<lparr>gripper_class = cls, position = pos, orientation = orn, urdf_file = file,
               gripper = body, active_joints = active, fixed_joints = fixed\<rparr>))"

definition sim_step :: "int \<Rightarrow> real \<Rightarrow> unit io" where
  "sim_step steps delay =
     for_each (py_range steps) (\<lambda>_. io_then (io_call StepSimulation) (time_sleep delay))"

definition set_position :: "BaseGripper \<Rightarrow> real list \<Rightarrow> real list \<Rightarrow> unit io" where
  "set_position self pos orn = io_call (ResetBasePositionAndOrientation (gripper self) pos orn)"

text \<open>The two guarded quotients of \<open>move_up_smoothly\<close>, under the names of its locals.\<close>

definition delta_z :: "real \<Rightarrow> real \<Rightarrow> int \<Rightarrow> error + real" where
  "delta_z target_z start_z steps =
     (if steps > 0 then truediv_int (target_z - start_z) steps else Inr 0)"

definition velocity :: "real \<Rightarrow> real \<Rightarrow> error + real" where
  "velocity dz delay = (if delay > 0 then truediv dz delay else Inr 0)"

definition move_up_smoothly :: "engine \<Rightarrow> BaseGripper \<Rightarrow> real \<Rightarrow> int \<Rightarrow> real \<Rightarrow> unit io" where
  "move_up_smoothly p self target_z steps delay =
     (case getBasePositionAndOrientation p (gripper self) of
        (current_position, current_orientation) \<Rightarrow>
        io_bind (io_lift (delta_z target_z (vec3_z current_position) steps)) (\<lambda>dz.
        io_bind (io_lift (velocity dz delay)) (\<lambda>v.
        io_then
          (for_each (py_range steps) (\<lambda>_.
             io_then (io_call (ResetBaseVelocity (gripper self) [0, 0, v]))
               (io_then (io_call StepSimulation) (time_sleep delay))))
          (io_call (ResetBaseVelocity (gripper self) [0, 0, 0])))))"

definition PR2Gripper_init :: "engine \<Rightarrow> real list \<Rightarrow> real list \<Rightarrow> BaseGripper io" where
  "PR2Gripper_init p pos orn = BaseGripper_init p PR2Gripper pos orn ''pr2_gripper.urdf''"

definition PR2Gripper_open_gripper :: "BaseGripper \<Rightarrow> unit io" where
  "PR2Gripper_open_gripper self =
     io_then
       (for_each (zip [0.548, 0.548] (active_joints self)) (\<lambda>(target_position, joint_index).
          io_call (SetJointMotorControl2 (gripper self) joint_index POSITION_CONTROL
                     target_position 100)))
       (sim_step 200 0.005)"

definition PR2Gripper_close_gripper :: "BaseGripper \<Rightarrow> unit io" where
  "PR2Gripper_close_gripper self =
     io_then
       (for_each (zip [0.0, 0.0] (active_joints self)) (\<lambda>(target_position, joint_index).
          io_call (SetJointMotorControl2 (gripper self) joint_index POSITION_CONTROL
                     target_position 500)))
       (io_then
          (for_each (active_joints self) (\<lambda>joint_index.
             io_call (ChangeDynamics (gripper self) joint_index None (Some 1.0) None)))
          (sim_step 200 0.005))"

text \<open>
  \<open>os.path.join\<close> on POSIX paths. \<open>current_dir\<close>, the directory two levels above
  \<open>gripper.py\<close>, depends on where the package is installed and is a parameter.
\<close>

definition path_join :: "string \<Rightarrow> string \<Rightarrow> string" where
  "path_join a b =
     (if b \<noteq> [] \<and> hd b = CHR ''/'' then b
      else if a = [] \<or> last a = CHR ''/'' then a @ b
      else a @ ''/'' @ b)"

definition SDHGripper_init :: "string \<Rightarrow> engine \<Rightarrow> real list \<Rightarrow> real list \<Rightarrow> BaseGripper io" where
  "SDHGripper_init current_dir p pos orn =
     (let sdh_path = path_join (path_join current_dir ''models'') ''sdh.urdf'' in
      io_bind (BaseGripper_init p SDHGripper pos orn sdh_path) (\<lambda>self.
        io_then
          (for_each (active_joints self) (\<lambda>joint_index.
             io_then (io_call (ResetJointState (gripper self) joint_index (- 0.5)))
               (io_call (SetJointMotorControl2 (gripper self) joint_index POSITION_CONTROL
                           (- 0.5) 100))))
          (io_return self)))"

definition SDHGripper_open_gripper :: "BaseGripper \<Rightarrow> unit io" where
  "SDHGripper_open_gripper self =
     io_then
       (for_each (active_joints self) (\<lambda>joint_index.
          io_call (SetJointMotorControl2 (gripper self) joint_index POSITION_CONTROL (- 0.5) 100)))
       (sim_step 200 0.005)"

definition SDHGripper_close_gripper :: "BaseGripper \<Rightarrow> unit io" where
  "SDHGripper_close_gripper self =
     io_then
       (for_each (active_joints self) (\<lambda>joint_index.
          io_then
            (io_call (SetJointMotorControl2 (gripper self) joint_index POSITION_CONTROL 1.0 500))
            (io_call (ChangeDynamics (gripper self) joint_index None (Some 1.0) None))))
       (sim_step 200 0.005)"

definition CustomGripper_init :: "engine \<Rightarrow> real list \<Rightarrow> real list \<Rightarrow> BaseGripper io" where
  "CustomGripper_init p pos orn = BaseGripper_init p CustomGripper pos orn ''custom_gripper.urdf''"

definition CustomGripper_open_gripper :: "BaseGripper \<Rightarrow> unit io" where
  "CustomGripper_open_gripper self =
     io_call (Print ''[INFO] CustomGripper: open_gripper not implemented, doing nothing.'')"

definition CustomGripper_close_gripper :: "BaseGripper \<Rightarrow> unit io" where
  "CustomGripper_close_gripper self =
     io_call (Print ''[INFO] CustomGripper: close_gripper not implemented, doing nothing.'')"

text \<open>Method dispatch on the class of the instance.\<close>

definition open_gripper :: "BaseGripper \<Rightarrow> unit io" where
  "open_gripper self =
     (case gripper_class self of
        PR2Gripper \<Rightarrow> PR2Gripper_open_gripper self
      | SDHGripper \<Rightarrow> SDHGripper_open_gripper self
      | CustomGripper \<Rightarrow> CustomGripper_open_gripper self)"

definition close_gripper :: "BaseGripper \<Rightarrow> unit io" where
  "close_gripper self =
     (case gripper_class self of
        PR2Gripper \<Rightarrow> PR2Gripper_close_gripper self
      | SDHGripper \<Rightarrow> SDHGripper_close_gripper self
      | CustomGripper \<Rightarrow> CustomGripper_close_gripper self)"

definition select_gripper ::
  "string \<Rightarrow> engine \<Rightarrow> string \<Rightarrow> real list \<Rightarrow> real list \<Rightarrow> BaseGripper io" where
  "select_gripper current_dir p gripper_type pos orn =
     (if gripper_type = ''pr2'' then PR2Gripper_init p pos orn
      else if gripper_type = ''sdh'' then SDHGripper_init current_dir p pos orn
      else if gripper_type = ''custom'' then CustomGripper_init p pos orn
      else io_raise (ValueError
        (''Unsupported gripper type. Supported types: '' @ [CHR 0x27] @ ''pr2'' @ [CHR 0x27]
          @ '', '' @ [CHR 0x27] @ ''sdh'' @ [CHR 0x27] @ '', '' @ [CHR 0x27] @ ''custom''
          @ [CHR 0x27] @ ''.'')))"

section \<open>The gripper factory (robots/gripper_factory.py)\<close>

text \<open>\<open>str.lower\<close> on a string of bytes: the ASCII capitals are mapped to small letters.\<close>

definition lower_char :: "char \<Rightarrow> char" where
  "lower_char c =
     (case map_of (zip ''ABCDEFGHIJKLMNOPQRSTUVWXYZ'' ''abcdefghijklmnopqrstuvwxyz'') c of
        None \<Rightarrow> c
      | Some l \<Rightarrow> l)"

definition lower :: "string \<Rightarrow> string" where
  "lower s = map lower_char s"

definition create_gripper ::
  "string \<Rightarrow> engine \<Rightarrow> string \<Rightarrow> real list \<Rightarrow> real list \<Rightarrow> BaseGripper io" where
  "create_gripper current_dir p gripper_type0 pos orn =
     (let gripper_type = lower gripper_type0 in
      if gripper_type = ''pr2'' then PR2Gripper_init p pos orn
      else if gripper_type = ''sdh'' then SDHGripper_init current_dir p pos orn
      else if gripper_type = ''custom'' then CustomGripper_init p pos orn
      else io_raise (ValueError
        (''Unsupported gripper type: '' @ [CHR 0x27] @ gripper_type @ [CHR 0x27]
          @ ''. Supported types: '' @ [CHR 0x27] @ ''pr2'' @ [CHR 0x27]
          @ '', '' @ [CHR 0x27] @ ''sdh'' @ [CHR 0x27] @ '', '' @ [CHR 0x27] @ ''custom''
          @ [CHR 0x27])))"

definition gripper_supported_types :: "string list" where
  "gripper_supported_types = [''pr2'', ''sdh'', ''custom'']"

section \<open>Graspable objects and their factory (objects/)\<close>

datatype object_class = CuboidObject | CylinderObject

text \<open>
  The attributes of an object instance; \<open>width\<close>, \<open>depth\<close> and \<open>size\<close> exist on a cuboid
  only, \<open>radius\<close> on a cylinder only.
\<close>

record BaseObject =
  object_class :: object_class
  height :: real
  mass :: real
  color :: "real list"
  object_id :: int
  width :: "real option"
  depth :: "real option"
  size_list :: "real list option"
  radius :: "real option"

text \<open>
  The keyword arguments handed through \<open>create_object\<close>: the parameters the two
  constructors know, each given or not, and the names of any other keywords.
\<close>

record kwargs =
  kw_width :: "real option"
  kw_depth :: "real option"
  kw_radius :: "real option"
  kw_height :: "real option"
  kw_mass :: "real option"
  kw_color :: "real list option"
  kw_other :: "string list"

definition default :: "'a \<Rightarrow> 'a option \<Rightarrow> 'a" where
  "default d v = (case v of None \<Rightarrow> d | Some x \<Rightarrow> x)"

definition get_spawn_position :: "real \<Rightarrow> real list" where
  "get_spawn_position h = [0, 0, h / 2]"

text \<open>
  \<open>BaseObject.__init__\<close> after the subclass has set its own attributes: the shape calls
  of \<open>create_shape\<close> are passed in, then \<open>_create_object\<close> creates the body.
\<close>

definition create_object_body :: "engine \<Rightarrow> call list \<Rightarrow> BaseObject \<Rightarrow> BaseObject io" where
  "create_object_body p shape_calls self =
     (shape_calls
        @ [CreateMultiBody (mass self) [0, 0, 0] (createCollisionShape p) (createVisualShape p)
             (get_spawn_position (height self)) False,
           ChangeDynamics (createMultiBody p) (- 1) None (Some 1.2) (Some 0.1)],
      Inr (self\<lparr>object_id := createMultiBody p\<rparr>))"

definition truthy_color :: "real list option \<Rightarrow> real list" where
  "truthy_color c = (case c of None \<Rightarrow> [1, 1, 1, 1] | Some xs \<Rightarrow> if xs = [] then [1, 1, 1, 1] else xs)"

definition CuboidObject_init :: "engine \<Rightarrow> kwargs \<Rightarrow> BaseObject io" where
  "CuboidObject_init p kw =
     (if kw_radius kw \<noteq> None \<or> kw_other kw \<noteq> []
      then io_raise (TypeError ''__init__() got an unexpected keyword argument'')
      else
        (let w = default 0.05 (kw_width kw); d = default 0.05 (kw_depth kw);
             h = default 0.8 (kw_height kw); m = default 0.1 (kw_mass kw);
             c = truthy_color (kw_color kw);
             half_extents = [w / 2, d / 2, h / 2]
         in create_object_body p
              [CreateVisualShape GEOM_BOX half_extents c, CreateCollisionShape GEOM_BOX half_extents]
              \<lparr>object_class = CuboidObject, height = h, mass = m, color = c, object_id = 0,
               width = Some w, depth = Some d, size_list = Some [w, d, h], radius = None\<rparr>))"

definition CylinderObject_init :: "engine \<Rightarrow> kwargs \<Rightarrow> BaseObject io" where
  "CylinderObject_init p kw =
     (if kw_width kw \<noteq> None \<or> kw_depth kw \<noteq> None \<or> kw_other kw \<noteq> []
      then io_raise (TypeError ''__init__() got an unexpected keyword argument'')
      else
        (let r = default 0.04 (kw_radius kw);
             h = default 0.8 (kw_height kw); m = default 0.1 (kw_mass kw);
             c = truthy_color (kw_color kw)
         in create_object_body p
              [CreateVisualShape GEOM_CYLINDER [r, h] c, CreateCollisionShape GEOM_CYLINDER [r, h]]
              \<lparr>object_class = CylinderObject, height = h, mass = m, color = c, object_id = 0,
               width = None, depth = None, size_list = None, radius = Some r\<rparr>))"

definition create_object :: "engine \<Rightarrow> string \<Rightarrow> kwargs \<Rightarrow> BaseObject io" where
  "create_object p object_type0 kw =
     (let object_type = lower object_type0 in
      if object_type = ''cuboid'' then CuboidObject_init p kw
      else if object_type = ''cylinder'' then CylinderObject_init p kw
      else io_raise (ValueError
        (''Unsupported object type: '' @ [CHR 0x27] @ object_type @ [CHR 0x27]
          @ ''. Supported types: '' @ [CHR 0x27] @ ''cuboid'' @ [CHR 0x27]
          @ '', '' @ [CHR 0x27] @ ''cylinder'' @ [CHR 0x27])))"

definition object_supported_types :: "string list" where
  "object_supported_types = [''cuboid'', ''cylinder'']"

section \<open>Commanded joint state\<close>

text \<open>
  What the engine has last been told per joint: the motor target (control mode, target
  position, force) and the lateral friction of the joint's link. Stepping the simulation,
  pausing and printing leave both as they are.
\<close>

record commanded =
  motor :: "int \<times> int \<Rightarrow> (control_mode \<times> real \<times> real) option"
  lateral_friction :: "int \<times> int \<Rightarrow> real option"

fun apply_call :: "commanded \<Rightarrow> call \<Rightarrow> commanded" where
  "apply_call s (SetJointMotorControl2 b j m t f) = s\<lparr>motor := (motor s)((b, j) \<mapsto> (m, t, f))\<rparr>"
| "apply_call s (ChangeDynamics b l m (Some fr) sp) =
     s\<lparr>lateral_friction := (lateral_friction s)((b, l) \<mapsto> fr)\<rparr>"
| "apply_call s _ = s"

definition after :: "'a io \<Rightarrow> commanded \<Rightarrow> commanded" where
  "after m s = foldl apply_call s (fst m)"

definition raises_ValueError :: "'a io \<Rightarrow> bool" where
  "raises_ValueError m = (case snd m of Inl (ValueError msg) \<Rightarrow> True | _ \<Rightarrow> False)"

definition returns :: "'a io \<Rightarrow> bool" where
  "returns m = (case snd m of Inl _ \<Rightarrow> False | Inr _ \<Rightarrow> True)"

section \<open>Concrete inputs\<close>

definition engine0 :: engine where
  "engine0 =
     \<lparr>isConnected = True,
      getBasePositionAndOrientation = (\<lambda>_. ((0, 0, 1), (0, 0, 0, 1))),
      getNumJoints = (\<lambda>_. 3),
      getJointInfo = (\<lambda>_ _. JOINT_REVOLUTE),
      loadURDF = (\<lambda>_. Some 7),
      createVisualShape = 0,
      createCollisionShape = 1,
      createMultiBody = 8\<rparr>"

definition fs0 :: filesystem where
  "fs0 = (\<lambda>_. None)"

definition store0 :: PerformanceMetrics where
  "store0 = \<lparr>output_path = ''grasp_metrics.csv'', column_names = header\<rparr>"

definition manipulator0 :: ManipulatorInterface where
  "manipulator0 =
     \<lparr>spawn_position = [0, 0, 1], spawn_orientation = [0, 0, 0, 1],
      model_path = ''pr2_gripper.urdf'', body_id = 7, movable_joints = [0, 2],
      static_joints = [1, 3]\<rparr>"

definition gripper0 :: "gripper_class \<Rightarrow> int list \<Rightarrow> BaseGripper" where
  "gripper0 cls joints =
     \<lparr>gripper_class = cls, position = [0, 0, 1], orientation = [0, 0, 0, 1],
      urdf_file = ''gripper.urdf'', gripper = 7, active_joints = joints, fixed_joints = []\<rparr>"

definition commanded0 :: commanded where
  "commanded0 = \<lparr>motor = (\<lambda>_. None), lateral_friction = (\<lambda>_. None)\<rparr>"

definition kwargs0 :: kwargs where
  "kwargs0 =
     \<lparr>kw_width = None, kw_depth = None, kw_radius = None, kw_height = None, kw_mass = None,
      kw_color = None, kw_other = []\<rparr>"

section \<open>Effects, classifier and result store\<close>

lemma io_then_return [simp]: "io_then (io_return x) m = m"
  by (cases m) (simp add: io_then_def io_bind_def io_return_def)

lemma io_then_call [simp]: "io_then (io_call c) (t, r) = (c # t, r)"
  by (simp add: io_then_def io_bind_def io_call_def)

lemma time_sleep_nonneg:
  "0 \<le> t \<Longrightarrow> t < sleep_limit \<Longrightarrow> time_sleep t = io_call (Sleep t)"
  by (simp add: time_sleep_def)

lemma sleep_safe_limit: "t \<le> sleep_safe \<Longrightarrow> t < sleep_limit"
  by (simp add: sleep_safe_def sleep_limit_def)

lemma assess_connected:
  assumes "isConnected p" and "2 < length start_position"
  shows "assess_grasp_quality p target_id start_position =
     (let d = vec3_z (fst (getBasePositionAndOrientation p target_id)) - start_position ! 2 in
      ([Sleep 0.5],
       Inr (if d > 0.1 then 1 else if 0.05 \<le> d \<and> d \<le> 0.1 then 2 else 0, d,
            vec3_list (fst (getBasePositionAndOrientation p target_id)))))"
  using assms
  by (cases "getBasePositionAndOrientation p target_id")
     (simp add: assess_grasp_quality_def subscript_def time_sleep_nonneg sleep_limit_def
        io_return_def Let_def)

text \<open>
  C1. While the engine is connected, for every initial position (a position has a z
  coordinate) and every final position read from the engine, \<open>assess_grasp_quality\<close>
  returns delta = final z - initial z together with the final position, and the status
  code is 1 (Success) iff delta > 0.1, 2 (Partial) iff 0.05 \<le> delta \<le> 0.1, and 0
  (Failure) otherwise; delta = 0.05 and delta = 0.1 are both Partial.
\<close>

theorem assess_grasp_quality_tiers:
  assumes "isConnected p" and "2 < length start_position"
  shows "\<exists>status delta.
           assess_grasp_quality p target_id start_position =
             ([Sleep 0.5],
              Inr (status, delta, vec3_list (fst (getBasePositionAndOrientation p target_id))))
         \<and> delta = vec3_z (fst (getBasePositionAndOrientation p target_id)) - start_position ! 2
         \<and> (status = 1 \<longleftrightarrow> delta > 0.1)
         \<and> (status = 2 \<longleftrightarrow> 0.05 \<le> delta \<and> delta \<le> 0.1)
         \<and> (status = 0 \<longleftrightarrow> \<not> delta > 0.1 \<and> \<not> (0.05 \<le> delta \<and> delta \<le> 0.1))
         \<and> (delta = 0.05 \<longrightarrow> status = 2)
         \<and> (delta = 0.1 \<longrightarrow> status = 2)"
proof -
  define d where
    "d = vec3_z (fst (getBasePositionAndOrientation p target_id)) - start_position ! 2"
  define s :: int where
    "s = (if d > 0.1 then 1 else if 0.05 \<le> d \<and> d \<le> 0.1 then 2 else 0)"
  have eq: "assess_grasp_quality p target_id start_position =
      ([Sleep 0.5], Inr (s, d, vec3_list (fst (getBasePositionAndOrientation p target_id))))"
    using assess_connected [OF assms, of target_id] by (simp add: Let_def d_def s_def)
  have s1: "s = 1 \<longleftrightarrow> d > 0.1" by (simp add: s_def)
  have s2: "s = 2 \<longleftrightarrow> 0.05 \<le> d \<and> d \<le> 0.1" unfolding s_def by auto
  have s0: "s = 0 \<longleftrightarrow> \<not> d > 0.1 \<and> \<not> (0.05 \<le> d \<and> d \<le> 0.1)" unfolding s_def by auto
  have b1: "d = 0.05 \<longrightarrow> s = 2" unfolding s_def by auto
  have b2: "d = 0.1 \<longrightarrow> s = 2" unfolding s_def by auto
  show ?thesis
    using eq s1 s2 s0 b1 b2 d_def by blast
qed

theorem assess_grasp_quality_tiers_witness:
  "isConnected engine0 \<and> 2 < length [0, 0, 0.95 :: real]
   \<and> assess_grasp_quality engine0 3 [0, 0, 0.95] = ([Sleep 0.5], Inr (2, 0.05, [0, 0, 1]))
   \<and> assess_grasp_quality engine0 3 [0, 0, 0.9] = ([Sleep 0.5], Inr (2, 0.1, [0, 0, 1]))
   \<and> assess_grasp_quality engine0 3 [0, 0, 0.7] = ([Sleep 0.5], Inr (1, 0.3, [0, 0, 1]))
   \<and> assess_grasp_quality engine0 3 [0, 0, 0.96] = ([Sleep 0.5], Inr (0, 0.04, [0, 0, 1]))"
proof -
  have others:
    "assess_grasp_quality engine0 3 [0, 0, 0.9] = ([Sleep 0.5], Inr (2, 0.1, [0, 0, 1]))"
    "assess_grasp_quality engine0 3 [0, 0, 0.7] = ([Sleep 0.5], Inr (1, 0.3, [0, 0, 1]))"
    "assess_grasp_quality engine0 3 [0, 0, 0.96] = ([Sleep 0.5], Inr (0, 0.04, [0, 0, 1]))"
    by (simp_all add: assess_connected engine0_def vec3_z_def vec3_list_def)
  have c: "isConnected engine0" by (simp add: engine0_def)
  have l: "2 < length [0, 0, 0.95 :: real]" by simp
  have p: "fst (getBasePositionAndOrientation engine0 3) = (0, 0, 1)"
    by (simp add: engine0_def)
  from assess_grasp_quality_tiers [OF c l, of 3] obtain status delta where
    eq: "assess_grasp_quality engine0 3 [0, 0, 0.95] =
           ([Sleep 0.5],
            Inr (status, delta, vec3_list (fst (getBasePositionAndOrientation engine0 3))))"
    and d: "delta = vec3_z (fst (getBasePositionAndOrientation engine0 3)) - [0, 0, 0.95] ! 2"
    and b: "delta = 0.05 \<longrightarrow> status = 2"
    by blast
  have "delta = 0.05" unfolding d p by (simp add: vec3_z_def)
  with b eq p c l others show ?thesis by (simp add: vec3_list_def)
qed

text \<open>
  C2. If the engine reports itself disconnected, \<open>assess_grasp_quality\<close> returns status
  0 (Failure), a vertical delta of exactly 0 and the start position it was given, whatever
  that position is, and raises nothing.
\<close>

theorem assess_grasp_quality_disconnected:
  assumes "\<not> isConnected p"
  shows "assess_grasp_quality p target_id start_position = ([Sleep 0.5], Inr (0, 0, start_position))"
  using assms
  by (simp add: assess_grasp_quality_def time_sleep_nonneg sleep_limit_def io_return_def)

theorem assess_grasp_quality_disconnected_witness:
  "\<not> isConnected (engine0\<lparr>isConnected := False\<rparr>)
   \<and> assess_grasp_quality (engine0\<lparr>isConnected := False\<rparr>) 3 [0, 0, 0.4]
       = ([Sleep 0.5], Inr (0, 0, [0, 0, 0.4]))
   \<and> assess_grasp_quality (engine0\<lparr>isConnected := False\<rparr>) 3 [] = ([Sleep 0.5], Inr (0, 0, []))"
  using assess_grasp_quality_disconnected [of "engine0\<lparr>isConnected := False\<rparr>" 3 "[0, 0, 0.4]"]
        assess_grasp_quality_disconnected [of "engine0\<lparr>isConnected := False\<rparr>" 3 "[]"]
  by simp

text \<open>
  C8. Constructing a \<open>PerformanceMetrics\<close> store on a path with no file creates the
  file with exactly one row, the ten column names in their order; on a path whose file
  exists the file system is left as it is, so constructing the store again writes no
  second header.
\<close>

theorem initialize_csv_header_once:
  "(fs path = None \<longrightarrow>
      snd (PerformanceMetrics_init path fs) =
        fs(path \<mapsto> [[''Position X'', ''Position Y'', ''Position Z'',
                       ''Orientation Roll'', ''Orientation Pitch'', ''Orientation Yaw'',
                       ''Initial Z'', ''Final Z'', ''Delta Z'', ''Success'']]))
   \<and> (fs path \<noteq> None \<longrightarrow> snd (PerformanceMetrics_init path fs) = fs)
   \<and> snd (PerformanceMetrics_init path (snd (PerformanceMetrics_init path fs)))
       = snd (PerformanceMetrics_init path fs)
   \<and> output_path (fst (PerformanceMetrics_init path fs)) = path"
  by (auto simp: PerformanceMetrics_init_def initialize_csv_def isfile_def header_def Let_def)

theorem initialize_csv_header_once_witness:
  "fs0 ''grasp_metrics.csv'' = None
   \<and> snd (PerformanceMetrics_init ''grasp_metrics.csv'' fs0) ''grasp_metrics.csv''
       = Some [[''Position X'', ''Position Y'', ''Position Z'',
                ''Orientation Roll'', ''Orientation Pitch'', ''Orientation Yaw'',
                ''Initial Z'', ''Final Z'', ''Delta Z'', ''Success'']]
   \<and> (fs0(''grasp_metrics.csv'' \<mapsto> [[''kept'']])) ''grasp_metrics.csv'' \<noteq> None
   \<and> snd (PerformanceMetrics_init ''grasp_metrics.csv'' (fs0(''grasp_metrics.csv'' \<mapsto> [[''kept'']])))
       ''grasp_metrics.csv'' = Some [[''kept'']]"
  using initialize_csv_header_once [of fs0 "''grasp_metrics.csv''"]
        initialize_csv_header_once [of "fs0(''grasp_metrics.csv'' \<mapsto> [[''kept'']])" "''grasp_metrics.csv''"]
  by (simp add: fs0_def)

lemma record_attempt_new:
  assumes "fs (output_path self) = Some (hdr # rows)" and "map str r \<notin> set rows"
  shows "record_attempt str self r fs = (fs(output_path self \<mapsto> hdr # rows @ [map str r]), [])"
  using assms by (simp add: record_attempt_def read_records_def append_row_def)

lemma record_attempt_old:
  assumes "fs (output_path self) = Some (hdr # rows)" and "map str r \<in> set rows"
  shows "record_attempt str self r fs = (fs, [duplicate_warning])"
  using assms by (simp add: record_attempt_def read_records_def)

lemma record_attempt_after:
  assumes "fs (output_path self) = Some (hdr # rows)"
  shows "\<exists>rows'. fst (record_attempt str self r fs) (output_path self) = Some (hdr # rows')
           \<and> map str r \<in> set rows'
           \<and> count_list rows' (map str r) = (if map str r \<in> set rows then count_list rows (map str r) else 1)"
proof (cases "map str r \<in> set rows")
  case True
  with assms show ?thesis by (simp add: record_attempt_old)
next
  case False
  with assms show ?thesis by (simp add: record_attempt_new count_list_0_iff)
qed

text \<open>
  C3. On a store file that has its header row: the second of two \<open>record_attempt\<close> calls
  with the same record writes nothing and prints the duplicate warning; if the record's
  string form was in the file at most once before, it is afterwards in exactly one row
  beyond the header; a record whose string form differs from every data row is appended
  as the last row; and two records with different string forms, both new, are both kept.
\<close>

theorem record_attempt_deduplicates:
  assumes "fs (output_path self) = Some (hdr # rows)"
  shows "record_attempt str self r (fst (record_attempt str self r fs))
           = (fst (record_attempt str self r fs), [duplicate_warning])
       \<and> (count_list rows (map str r) \<le> 1 \<longrightarrow>
            count_list (data_rows (fst (record_attempt str self r (fst (record_attempt str self r fs))))
                          (output_path self)) (map str r) = 1)
       \<and> (map str r \<notin> set rows \<longrightarrow>
            record_attempt str self r fs
              = (fs(output_path self \<mapsto> hdr # rows @ [map str r]), []))
       \<and> (map str r \<notin> set rows \<and> map str r' \<notin> set rows \<and> map str r' \<noteq> map str r \<longrightarrow>
            data_rows (fst (record_attempt str self r' (fst (record_attempt str self r fs))))
              (output_path self) = rows @ [map str r, map str r'])"
proof -
  let ?fs1 = "fst (record_attempt str self r fs)"
  from record_attempt_after [where fs = fs and self = self and hdr = hdr and rows = rows and str = str and r = r, OF assms] obtain rows' where
    f1: "?fs1 (output_path self) = Some (hdr # rows')" and
    m1: "map str r \<in> set rows'" and
    c1: "count_list rows' (map str r) = (if map str r \<in> set rows then count_list rows (map str r) else 1)"
    by blast
  have second: "record_attempt str self r ?fs1 = (?fs1, [duplicate_warning])"
    by (rule record_attempt_old [where fs = ?fs1 and self = self and hdr = hdr and rows = rows', OF f1 m1])
  have cnt: "count_list rows (map str r) \<le> 1 \<longrightarrow>
      count_list (data_rows (fst (record_attempt str self r ?fs1)) (output_path self)) (map str r) = 1"
  proof
    assume le: "count_list rows (map str r) \<le> 1"
    have "count_list rows' (map str r) = 1"
    proof (cases "map str r \<in> set rows")
      case True
      then have "count_list rows (map str r) \<noteq> 0" by (simp add: count_list_0_iff)
      with le c1 True show ?thesis by simp
    next
      case False
      with c1 show ?thesis by simp
    qed
    then show "count_list (data_rows (fst (record_attempt str self r ?fs1)) (output_path self)) (map str r) = 1"
      by (simp add: second f1 data_rows_def)
  qed
  have new: "map str r \<notin> set rows \<longrightarrow>
      record_attempt str self r fs = (fs(output_path self \<mapsto> hdr # rows @ [map str r]), [])"
    using assms by (simp add: record_attempt_new)
  have two: "map str r \<notin> set rows \<and> map str r' \<notin> set rows \<and> map str r' \<noteq> map str r \<longrightarrow>
      data_rows (fst (record_attempt str self r' ?fs1)) (output_path self) = rows @ [map str r, map str r']"
  proof
    assume a: "map str r \<notin> set rows \<and> map str r' \<notin> set rows \<and> map str r' \<noteq> map str r"
    then have e1: "?fs1 (output_path self) = Some (hdr # (rows @ [map str r]))"
      using assms by (simp add: record_attempt_new)
    have "map str r' \<notin> set (rows @ [map str r])" using a by simp
    from record_attempt_new [where fs = ?fs1 and self = self and hdr = hdr and str = str, OF e1 this]
    show "data_rows (fst (record_attempt str self r' ?fs1)) (output_path self) = rows @ [map str r, map str r']"
      by (simp add: data_rows_def)
  qed
  from second cnt new two show ?thesis by blast
qed

section \<open>Vertical motion\<close>

lemma io_bind_lift_Inr [simp]: "io_bind (io_lift (Inr x)) f = f x"
  by (cases "f x") (simp add: io_bind_def io_lift_def)

lemma io_bind_lift_Inl [simp]: "io_bind (io_lift (Inl e)) f = ([], Inl e)"
  by (simp add: io_bind_def io_lift_def)

lemma io_then_ok [simp]: "io_then (t, Inr x) (t', r) = (t @ t', r)"
  by (simp add: io_then_def io_bind_def)

lemma io_then_err [simp]: "io_then (t, Inl e) m = (t, Inl e)"
  by (simp add: io_then_def io_bind_def)

lemma for_each_ok:
  "(\<And>x. x \<in> set xs \<Longrightarrow> snd (body x) = Inr ()) \<Longrightarrow>
     for_each xs body = (concat (map (\<lambda>x. fst (body x)) xs), Inr ())"
proof (induction xs)
  case Nil
  show ?case by (simp add: io_return_def)
next
  case (Cons x xs)
  have b: "body x = (fst (body x), Inr ())" using Cons.prems [of x] by (cases "body x") simp
  have r: "for_each xs body = (concat (map (\<lambda>x. fst (body x)) xs), Inr ())"
    using Cons.IH Cons.prems by simp
  show ?case by (simp add: r) (subst b, simp)
qed

lemma for_each_const:
  "for_each xs (\<lambda>_. (t, Inr ())) = (concat (replicate (length xs) t), Inr ())"
  by (simp add: for_each_ok map_replicate_const)

lemma for_each_fail:
  "xs \<noteq> [] \<Longrightarrow> for_each xs (\<lambda>_. (t, Inl e)) = (t, Inl e)"
  by (cases xs) simp_all

lemma length_range [simp]: "length (py_range n) = nat n"
  by (simp add: py_range_def)

lemma range_nonpos [simp]: "n \<le> 0 \<Longrightarrow> py_range n = []"
  by (simp add: py_range_def)

lemma range_pos: "0 < n \<Longrightarrow> py_range n \<noteq> []"
  by (simp add: py_range_def)

lemma tick_ok:
  "0 \<le> d \<Longrightarrow> d < sleep_limit \<Longrightarrow>
   io_then (io_call (ResetBaseVelocity b v)) (io_then (io_call StepSimulation) (time_sleep d))
     = ([ResetBaseVelocity b v, StepSimulation, Sleep d], Inr ())"
  by (simp add: time_sleep_nonneg io_call_def)

lemma tick_fail:
  "d < 0 \<Longrightarrow>
   io_then (io_call (ResetBaseVelocity b v)) (io_then (io_call StepSimulation) (time_sleep d))
     = ([ResetBaseVelocity b v, StepSimulation], Inl (ValueError ''sleep length must be non-negative''))"
  by (simp add: time_sleep_def io_call_def io_raise_def)

lemma sleep_limit_pos: "0 < sleep_limit"
  by (simp add: sleep_limit_def)

lemma tick_overflow:
  assumes "sleep_limit \<le> d"
  shows "io_then (io_call (ResetBaseVelocity b v))
           (io_then (io_call StepSimulation) (time_sleep d))
         = ([ResetBaseVelocity b v, StepSimulation], Inl OverflowError)"
proof -
  have "\<not> d < 0" using assms sleep_limit_pos by linarith
  with assms show ?thesis by (simp add: time_sleep_def io_call_def io_raise_def)
qed

text \<open>The motion loop followed by the final reset, for a delay that is accepted.\<close>

lemma motion_loop_ok:
  assumes "0 \<le> d" and "d < sleep_limit"
  shows "io_then
     (for_each (py_range n) (\<lambda>_.
        io_then (io_call (ResetBaseVelocity b [0, 0, v]))
          (io_then (io_call StepSimulation) (time_sleep d))))
     (io_call (ResetBaseVelocity b [0, 0, 0]))
   = (concat (replicate (nat n) [ResetBaseVelocity b [0, 0, v], StepSimulation, Sleep d])
        @ [ResetBaseVelocity b [0, 0, 0]], Inr ())"
  unfolding tick_ok [OF assms] for_each_const by (simp add: io_call_def)

lemma motion_loop_fail:
  assumes "d < 0" and "0 < n"
  shows "io_then
     (for_each (py_range n) (\<lambda>_.
        io_then (io_call (ResetBaseVelocity b [0, 0, v]))
          (io_then (io_call StepSimulation) (time_sleep d))))
     (io_call (ResetBaseVelocity b [0, 0, 0]))
   = ([ResetBaseVelocity b [0, 0, v], StepSimulation],
      Inl (ValueError ''sleep length must be non-negative''))"
  unfolding tick_fail [OF assms(1)] using assms(2) by (simp add: for_each_fail range_pos)

lemma motion_loop_overflow:
  assumes "sleep_limit \<le> d" and "0 < n"
  shows "io_then
     (for_each (py_range n) (\<lambda>_.
        io_then (io_call (ResetBaseVelocity b [0, 0, v]))
          (io_then (io_call StepSimulation) (time_sleep d))))
     (io_call (ResetBaseVelocity b [0, 0, 0]))
   = ([ResetBaseVelocity b [0, 0, v], StepSimulation], Inl OverflowError)"
  unfolding tick_overflow [OF assms(1)] using assms(2) by (simp add: for_each_fail range_pos)

lemma motion_loop_empty:
  "n \<le> 0 \<Longrightarrow>
   io_then (for_each (py_range n) body) (io_call (ResetBaseVelocity b [0, 0, 0]))
   = ([ResetBaseVelocity b [0, 0, 0]], Inr ())"
  by (simp add: io_call_def io_return_def)

lemma motion_loop_cases:
  "io_then
     (for_each (py_range n) (\<lambda>_.
        io_then (io_call (ResetBaseVelocity b [0, 0, v]))
          (io_then (io_call StepSimulation) (time_sleep d))))
     (io_call (ResetBaseVelocity b [0, 0, 0]))
   = (if 0 < n \<and> d < 0
      then ([ResetBaseVelocity b [0, 0, v], StepSimulation],
            Inl (ValueError ''sleep length must be non-negative''))
      else if 0 < n \<and> sleep_limit \<le> d
      then ([ResetBaseVelocity b [0, 0, v], StepSimulation], Inl OverflowError)
      else (concat (replicate (nat n) [ResetBaseVelocity b [0, 0, v], StepSimulation, Sleep d])
              @ [ResetBaseVelocity b [0, 0, 0]], Inr ()))"
proof -
  consider (fail) "0 < n" "d < 0" | (over) "0 < n" "sleep_limit \<le> d"
    | (ok) "0 \<le> d" "d < sleep_limit" | (empty) "n \<le> 0"
    by linarith
  then show ?thesis
  proof cases
    case fail
    from motion_loop_fail [OF fail(2) fail(1)] fail show ?thesis by simp
  next
    case over
    have "\<not> d < 0" using over(2) sleep_limit_pos by linarith
    with motion_loop_overflow [OF over(2) over(1)] over show ?thesis by simp
  next
    case ok
    from motion_loop_ok [OF ok] ok show ?thesis by simp
  next
    case empty
    from motion_loop_empty [OF empty] empty show ?thesis by simp
  qed
qed

text \<open>The two guarded quotients.\<close>

lemma height_increment_closed:
  "height_increment t z n =
     (if 0 < n \<and> float_int_bound \<le> n then Inl OverflowError
      else Inr (if n > 0 then (t - z) / real_of_int n else 0))"
  by (simp add: height_increment_def truediv_int_def int_to_float_def truediv_def)

lemma vertical_velocity_total:
  "vertical_velocity i d = Inr (if d > 0 then i / d else 0)"
  by (simp add: vertical_velocity_def truediv_def)

lemma delta_z_closed:
  "delta_z t z n =
     (if 0 < n \<and> float_int_bound \<le> n then Inl OverflowError
      else Inr (if n > 0 then (t - z) / real_of_int n else 0))"
  by (simp add: delta_z_def truediv_int_def int_to_float_def truediv_def)

lemma velocity_total:
  "velocity i d = Inr (if d > 0 then i / d else 0)"
  by (simp add: velocity_def truediv_def)

text \<open>Both primitives in closed form, from the height the engine reports.\<close>

lemma execute_vertical_motion_closed:
  "execute_vertical_motion p self t n d =
     (if 0 < n \<and> float_int_bound \<le> n then ([], Inl OverflowError)
      else if 0 < n \<and> d < 0
      then ([ResetBaseVelocity (body_id self) [0, 0, 0], StepSimulation],
            Inl (ValueError ''sleep length must be non-negative''))
      else if 0 < n \<and> sleep_limit \<le> d
      then ([ResetBaseVelocity (body_id self)
               [0, 0, (t - vec3_z (fst (getBasePositionAndOrientation p (body_id self)))) / real_of_int n / d],
             StepSimulation], Inl OverflowError)
      else (concat (replicate (nat n)
              [ResetBaseVelocity (body_id self)
                 [0, 0, (if d > 0 then (t - vec3_z (fst (getBasePositionAndOrientation p (body_id self)))) / real_of_int n / d else 0)],
               StepSimulation, Sleep d])
              @ [ResetBaseVelocity (body_id self) [0, 0, 0]], Inr ()))"
proof -
  obtain pos rot where pr: "getBasePositionAndOrientation p (body_id self) = (pos, rot)"
    by (cases "getBasePositionAndOrientation p (body_id self)")
  show ?thesis
  proof (cases "0 < n \<and> float_int_bound \<le> n")
    case True
    then show ?thesis
      by (simp add: execute_vertical_motion_def pr height_increment_closed)
  next
    case False
    then have "execute_vertical_motion p self t n d =
       io_then
         (for_each (py_range n) (\<lambda>_.
            io_then (io_call (ResetBaseVelocity (body_id self)
                       [0, 0, (if d > 0 then (if n > 0 then (t - vec3_z pos) / real_of_int n else 0) / d else 0)]))
              (io_then (io_call StepSimulation) (time_sleep d))))
         (io_call (ResetBaseVelocity (body_id self) [0, 0, 0]))"
      by (auto simp: execute_vertical_motion_def pr height_increment_closed
            vertical_velocity_total)
    also have "\<dots> = (if 0 < n \<and> d < 0
        then ([ResetBaseVelocity (body_id self) [0, 0, 0], StepSimulation],
              Inl (ValueError ''sleep length must be non-negative''))
        else if 0 < n \<and> sleep_limit \<le> d
        then ([ResetBaseVelocity (body_id self) [0, 0, (t - vec3_z pos) / real_of_int n / d],
               StepSimulation], Inl OverflowError)
        else (concat (replicate (nat n)
                [ResetBaseVelocity (body_id self)
                   [0, 0, (if d > 0 then (t - vec3_z pos) / real_of_int n / d else 0)],
                 StepSimulation, Sleep d])
                @ [ResetBaseVelocity (body_id self) [0, 0, 0]], Inr ()))"
      unfolding motion_loop_cases using sleep_limit_pos by (cases "0 < n") auto
    finally show ?thesis using False by (simp add: pr)
  qed
qed

lemma move_up_smoothly_closed:
  "move_up_smoothly p self t n d =
     (if 0 < n \<and> float_int_bound \<le> n then ([], Inl OverflowError)
      else if 0 < n \<and> d < 0
      then ([ResetBaseVelocity (gripper self) [0, 0, 0], StepSimulation],
            Inl (ValueError ''sleep length must be non-negative''))
      else if 0 < n \<and> sleep_limit \<le> d
      then ([ResetBaseVelocity (gripper self)
               [0, 0, (t - vec3_z (fst (getBasePositionAndOrientation p (gripper self)))) / real_of_int n / d],
             StepSimulation], Inl OverflowError)
      else (concat (replicate (nat n)
              [ResetBaseVelocity (gripper self)
                 [0, 0, (if d > 0 then (t - vec3_z (fst (getBasePositionAndOrientation p (gripper self)))) / real_of_int n / d else 0)],
               StepSimulation, Sleep d])
              @ [ResetBaseVelocity (gripper self) [0, 0, 0]], Inr ()))"
proof -
  obtain pos rot where pr: "getBasePositionAndOrientation p (gripper self) = (pos, rot)"
    by (cases "getBasePositionAndOrientation p (gripper self)")
  show ?thesis
  proof (cases "0 < n \<and> float_int_bound \<le> n")
    case True
    then show ?thesis
      by (simp add: move_up_smoothly_def pr delta_z_closed)
  next
    case False
    then have "move_up_smoothly p self t n d =
       io_then
         (for_each (py_range n) (\<lambda>_.
            io_then (io_call (ResetBaseVelocity (gripper self)
                       [0, 0, (if d > 0 then (if n > 0 then (t - vec3_z pos) / real_of_int n else 0) / d else 0)]))
              (io_then (io_call StepSimulation) (time_sleep d))))
         (io_call (ResetBaseVelocity (gripper self) [0, 0, 0]))"
      by (auto simp: move_up_smoothly_def pr delta_z_closed velocity_total)
    also have "\<dots> = (if 0 < n \<and> d < 0
        then ([ResetBaseVelocity (gripper self) [0, 0, 0], StepSimulation],
              Inl (ValueError ''sleep length must be non-negative''))
        else if 0 < n \<and> sleep_limit \<le> d
        then ([ResetBaseVelocity (gripper self) [0, 0, (t - vec3_z pos) / real_of_int n / d],
               StepSimulation], Inl OverflowError)
        else (concat (replicate (nat n)
                [ResetBaseVelocity (gripper self)
                   [0, 0, (if d > 0 then (t - vec3_z pos) / real_of_int n / d else 0)],
                 StepSimulation, Sleep d])
                @ [ResetBaseVelocity (gripper self) [0, 0, 0]], Inr ()))"
      unfolding motion_loop_cases using sleep_limit_pos by (cases "0 < n") auto
    finally show ?thesis using False by (simp add: pr)
  qed
qed

text \<open>
  C4 (as the code has it). For every target height, every \<open>steps > 0\<close> that converts
  to a float (below \<open>2 ^ 1024 - 2 ^ 970\<close>) and every \<open>step_time > 0\<close> of at most
  \<open>sleep_safe\<close> seconds, both vertical-motion primitives command the constant vertical
  velocity \<open>((target - current_z) / steps) / step_time\<close>, set it before each of exactly
  \<open>steps\<close> simulation ticks, each followed by a pause of \<open>step_time\<close>, and then set the
  velocity to zero.
\<close>

theorem vertical_motion_constant_velocity:
  assumes "0 < steps" and "steps < float_int_bound"
    and "0 < step_time" and "step_time \<le> sleep_safe"
  shows "execute_vertical_motion p m target_height steps step_time =
           (concat (replicate (nat steps)
              [ResetBaseVelocity (body_id m)
                 [0, 0, (target_height - vec3_z (fst (getBasePositionAndOrientation p (body_id m))))
                          / real_of_int steps / step_time],
               StepSimulation, Sleep step_time])
            @ [ResetBaseVelocity (body_id m) [0, 0, 0]], Inr ())
       \<and> move_up_smoothly p g target_height steps step_time =
           (concat (replicate (nat steps)
              [ResetBaseVelocity (gripper g)
                 [0, 0, (target_height - vec3_z (fst (getBasePositionAndOrientation p (gripper g))))
                          / real_of_int steps / step_time],
               StepSimulation, Sleep step_time])
            @ [ResetBaseVelocity (gripper g) [0, 0, 0]], Inr ())"
proof -
  have "step_time < sleep_limit" using assms(4) by (rule sleep_safe_limit)
  with assms show ?thesis
    by (simp add: execute_vertical_motion_closed move_up_smoothly_closed)
qed

theorem vertical_motion_constant_velocity_witness:
  "(0::int) < 2 \<and> 2 < float_int_bound \<and> (0::real) < 1 / 2 \<and> 1 / 2 \<le> sleep_safe
   \<and> execute_vertical_motion engine0 manipulator0 3 2 (1 / 2) =
       ([ResetBaseVelocity 7 [0, 0, 2], StepSimulation, Sleep (1 / 2),
         ResetBaseVelocity 7 [0, 0, 2], StepSimulation, Sleep (1 / 2),
         ResetBaseVelocity 7 [0, 0, 0]], Inr ())
   \<and> move_up_smoothly engine0 (gripper0 PR2Gripper [0, 2]) 3 2 (1 / 2) =
       ([ResetBaseVelocity 7 [0, 0, 2], StepSimulation, Sleep (1 / 2),
         ResetBaseVelocity 7 [0, 0, 2], StepSimulation, Sleep (1 / 2),
         ResetBaseVelocity 7 [0, 0, 0]], Inr ())"
proof -
  have h: "(0::int) < 2" "2 < float_int_bound" "(0::real) < 1 / 2" "1 / 2 \<le> sleep_safe"
    by (simp_all add: float_int_bound_def sleep_safe_def)
  from vertical_motion_constant_velocity
         [OF h, of engine0 manipulator0 3 "gripper0 PR2Gripper [0, 2]"] h
  show ?thesis
    by (simp add: engine0_def manipulator0_def gripper0_def vec3_z_def numeral_2_eq_2)
qed

text \<open>
  C4 as stated fails: from height 1 to target 2 in one step of half a second the commanded
  velocity is 2, while \<open>(target - current_z) / steps\<close> is 1. It also fails for a delay
  of \<open>10 ^ 10\<close> seconds, where the first pause raises \<open>OverflowError\<close> after one tick,
  and for \<open>10 ^ 400\<close> steps, where the quotient raises it before any engine call; neither
  reaches the final reset.
\<close>

theorem vertical_velocity_not_height_over_steps:
  "execute_vertical_motion engine0 manipulator0 2 1 (1 / 2) =
     ([ResetBaseVelocity 7 [0, 0, 2], StepSimulation, Sleep (1 / 2),
       ResetBaseVelocity 7 [0, 0, 0]], Inr ())
   \<and> (2 - vec3_z (fst (getBasePositionAndOrientation engine0 (body_id manipulator0))))
        / real_of_int 1 = 1
   \<and> ResetBaseVelocity 7
         [0, 0, (2 - vec3_z (fst (getBasePositionAndOrientation engine0 (body_id manipulator0))))
                  / real_of_int 1]
       \<notin> set (fst (execute_vertical_motion engine0 manipulator0 2 1 (1 / 2)))
   \<and> execute_vertical_motion engine0 manipulator0 2 1 (10 ^ 10) =
       ([ResetBaseVelocity 7 [0, 0, 1 / 10 ^ 10], StepSimulation], Inl OverflowError)
   \<and> execute_vertical_motion engine0 manipulator0 2 (10 ^ 400) (1 / 2) =
       ([], Inl OverflowError)"
  by (simp add: execute_vertical_motion_closed engine0_def manipulator0_def vec3_z_def
        sleep_limit_def float_int_bound_def)

text \<open>
  C10 (as the code has it). In both vertical-motion primitives the per-step increment is
  0 for zero steps and the velocity is 0 for a zero delay; no input leads to a division
  by zero; and whenever there is no step to make, or the delay is between 0 and
  \<open>sleep_safe\<close> seconds and the step count converts to a float (below
  \<open>2 ^ 1024 - 2 ^ 970\<close>), the call returns and its last engine call resets the velocity
  to zero. With zero steps the reset is the only call; with a zero delay and such a step
  count every commanded velocity is zero.
\<close>

theorem vertical_motion_total:
  "height_increment target_height z 0 = Inr 0
   \<and> delta_z target_height z 0 = Inr 0
   \<and> vertical_velocity increment 0 = Inr 0
   \<and> velocity increment 0 = Inr 0
   \<and> height_increment target_height z steps \<noteq> Inl ZeroDivisionError
   \<and> delta_z target_height z steps \<noteq> Inl ZeroDivisionError
   \<and> vertical_velocity increment step_time \<noteq> Inl ZeroDivisionError
   \<and> velocity increment step_time \<noteq> Inl ZeroDivisionError
   \<and> snd (execute_vertical_motion p m target_height steps step_time) \<noteq> Inl ZeroDivisionError
   \<and> snd (move_up_smoothly p g target_height steps step_time) \<noteq> Inl ZeroDivisionError
   \<and> (0 \<le> step_time \<and> step_time \<le> sleep_safe \<and> steps < float_int_bound \<or> steps \<le> 0 \<longrightarrow>
        snd (execute_vertical_motion p m target_height steps step_time) = Inr ()
        \<and> last (fst (execute_vertical_motion p m target_height steps step_time))
            = ResetBaseVelocity (body_id m) [0, 0, 0]
        \<and> snd (move_up_smoothly p g target_height steps step_time) = Inr ()
        \<and> last (fst (move_up_smoothly p g target_height steps step_time))
            = ResetBaseVelocity (gripper g) [0, 0, 0])
   \<and> execute_vertical_motion p m target_height 0 step_time
        = ([ResetBaseVelocity (body_id m) [0, 0, 0]], Inr ())
   \<and> move_up_smoothly p g target_height 0 step_time
        = ([ResetBaseVelocity (gripper g) [0, 0, 0]], Inr ())
   \<and> (steps < float_int_bound \<longrightarrow>
        execute_vertical_motion p m target_height steps 0
          = (concat (replicate (nat steps)
               [ResetBaseVelocity (body_id m) [0, 0, 0], StepSimulation, Sleep 0])
             @ [ResetBaseVelocity (body_id m) [0, 0, 0]], Inr ())
        \<and> move_up_smoothly p g target_height steps 0
          = (concat (replicate (nat steps)
               [ResetBaseVelocity (gripper g) [0, 0, 0], StepSimulation, Sleep 0])
             @ [ResetBaseVelocity (gripper g) [0, 0, 0]], Inr ()))"
proof -
  have a: "height_increment target_height z 0 = Inr 0" "delta_z target_height z 0 = Inr 0"
    "vertical_velocity increment 0 = Inr 0" "velocity increment 0 = Inr 0"
    by (simp_all add: height_increment_def delta_z_def vertical_velocity_def velocity_def)
  have b: "height_increment target_height z steps \<noteq> Inl ZeroDivisionError"
    "delta_z target_height z steps \<noteq> Inl ZeroDivisionError"
    "vertical_velocity increment step_time \<noteq> Inl ZeroDivisionError"
    "velocity increment step_time \<noteq> Inl ZeroDivisionError"
    by (simp_all add: height_increment_closed delta_z_closed vertical_velocity_total
          velocity_total)
  have c: "snd (execute_vertical_motion p m target_height steps step_time) \<noteq> Inl ZeroDivisionError"
    "snd (move_up_smoothly p g target_height steps step_time) \<noteq> Inl ZeroDivisionError"
    by (simp_all add: execute_vertical_motion_closed move_up_smoothly_closed)
  have e: "0 \<le> step_time \<and> step_time \<le> sleep_safe \<and> steps < float_int_bound \<or> steps \<le> 0 \<longrightarrow>
        snd (execute_vertical_motion p m target_height steps step_time) = Inr ()
        \<and> last (fst (execute_vertical_motion p m target_height steps step_time))
            = ResetBaseVelocity (body_id m) [0, 0, 0]
        \<and> snd (move_up_smoothly p g target_height steps step_time) = Inr ()
        \<and> last (fst (move_up_smoothly p g target_height steps step_time))
            = ResetBaseVelocity (gripper g) [0, 0, 0]"
  proof
    assume h: "0 \<le> step_time \<and> step_time \<le> sleep_safe \<and> steps < float_int_bound \<or> steps \<le> 0"
    then have n: "\<not> (0 < steps \<and> float_int_bound \<le> steps)"
      "\<not> (0 < steps \<and> step_time < 0)" "\<not> (0 < steps \<and> sleep_limit \<le> step_time)"
      using sleep_safe_limit [of step_time] by auto
    show "snd (execute_vertical_motion p m target_height steps step_time) = Inr ()
        \<and> last (fst (execute_vertical_motion p m target_height steps step_time))
            = ResetBaseVelocity (body_id m) [0, 0, 0]
        \<and> snd (move_up_smoothly p g target_height steps step_time) = Inr ()
        \<and> last (fst (move_up_smoothly p g target_height steps step_time))
            = ResetBaseVelocity (gripper g) [0, 0, 0]"
      using n by (simp add: execute_vertical_motion_closed move_up_smoothly_closed)
  qed
  have f: "execute_vertical_motion p m target_height 0 step_time
        = ([ResetBaseVelocity (body_id m) [0, 0, 0]], Inr ())"
    "move_up_smoothly p g target_height 0 step_time
        = ([ResetBaseVelocity (gripper g) [0, 0, 0]], Inr ())"
    by (simp_all add: execute_vertical_motion_closed move_up_smoothly_closed)
  have g: "steps < float_int_bound \<longrightarrow>
        execute_vertical_motion p m target_height steps 0
          = (concat (replicate (nat steps)
               [ResetBaseVelocity (body_id m) [0, 0, 0], StepSimulation, Sleep 0])
             @ [ResetBaseVelocity (body_id m) [0, 0, 0]], Inr ())
        \<and> move_up_smoothly p g target_height steps 0
          = (concat (replicate (nat steps)
               [ResetBaseVelocity (gripper g) [0, 0, 0], StepSimulation, Sleep 0])
             @ [ResetBaseVelocity (gripper g) [0, 0, 0]], Inr ())"
    using sleep_limit_pos
    by (simp add: execute_vertical_motion_closed move_up_smoothly_closed)
  from a b c e f g show ?thesis by blast
qed

theorem vertical_motion_total_witness:
  "((0::real) \<le> 0 \<and> 0 \<le> sleep_safe \<and> 2 < float_int_bound \<or> (2::int) \<le> 0)
   \<and> execute_vertical_motion engine0 manipulator0 3 2 0 =
       ([ResetBaseVelocity 7 [0, 0, 0], StepSimulation, Sleep 0,
         ResetBaseVelocity 7 [0, 0, 0], StepSimulation, Sleep 0,
         ResetBaseVelocity 7 [0, 0, 0]], Inr ())
   \<and> last (fst (execute_vertical_motion engine0 manipulator0 3 2 0))
       = ResetBaseVelocity 7 [0, 0, 0]
   \<and> move_up_smoothly engine0 (gripper0 PR2Gripper [0, 2]) 3 0 (1 / 2) =
       ([ResetBaseVelocity 7 [0, 0, 0]], Inr ())"
proof -
  have h: "(0::real) \<le> 0 \<and> 0 \<le> sleep_safe \<and> 2 < float_int_bound \<or> (2::int) \<le> 0"
    "2 < float_int_bound"
    by (simp_all add: sleep_safe_def float_int_bound_def)
  note t = vertical_motion_total
    [where steps = 2 and step_time = 0 and p = engine0 and m = manipulator0
       and target_height = 3 and g = "gripper0 PR2Gripper [0, 2]"]
  note u = vertical_motion_total
    [where steps = 0 and step_time = "1 / 2" and p = engine0 and m = manipulator0
       and target_height = 3 and g = "gripper0 PR2Gripper [0, 2]"]
  have l: "last (fst (execute_vertical_motion engine0 manipulator0 3 2 0))
       = ResetBaseVelocity 7 [0, 0, 0]"
    using t h(1) by (simp add: manipulator0_def)
  have x: "execute_vertical_motion engine0 manipulator0 3 2 0 =
       ([ResetBaseVelocity 7 [0, 0, 0], StepSimulation, Sleep 0,
         ResetBaseVelocity 7 [0, 0, 0], StepSimulation, Sleep 0,
         ResetBaseVelocity 7 [0, 0, 0]], Inr ())"
    using t h(2) by (simp add: manipulator0_def numeral_2_eq_2)
  have y: "move_up_smoothly engine0 (gripper0 PR2Gripper [0, 2]) 3 0 (1 / 2) =
       ([ResetBaseVelocity 7 [0, 0, 0]], Inr ())"
    using u by (simp add: gripper0_def)
  from h(1) l x y show ?thesis by simp
qed

text \<open>
  C10 as stated fails for a negative delay with at least one step: the first pause raises
  \<open>ValueError\<close> and the reset after the loop is not reached. Nor is it reached for a
  delay of \<open>10 ^ 10\<close> seconds, where the first pause raises \<open>OverflowError\<close>, or for
  \<open>10 ^ 400\<close> steps, where the quotient raises it.
\<close>

theorem vertical_motion_negative_delay_raises:
  "execute_vertical_motion engine0 manipulator0 2 1 (- 1) =
     ([ResetBaseVelocity 7 [0, 0, 0], StepSimulation],
      Inl (ValueError ''sleep length must be non-negative''))
   \<and> move_up_smoothly engine0 (gripper0 PR2Gripper [0, 2]) 2 1 (- 1) =
     ([ResetBaseVelocity 7 [0, 0, 0], StepSimulation],
      Inl (ValueError ''sleep length must be non-negative''))
   \<and> move_up_smoothly engine0 (gripper0 PR2Gripper [0, 2]) 2 1 (10 ^ 10) =
     ([ResetBaseVelocity 7 [0, 0, 1 / 10 ^ 10], StepSimulation], Inl OverflowError)
   \<and> move_up_smoothly engine0 (gripper0 PR2Gripper [0, 2]) 2 (10 ^ 400) 0 =
     ([], Inl OverflowError)"
  by (simp add: execute_vertical_motion_closed move_up_smoothly_closed
        manipulator0_def gripper0_def engine0_def vec3_z_def sleep_limit_def
        float_int_bound_def)

lemma str_int_ex: "map str_int [1, - 2, 30] = [''1'', ''-2'', ''30'']"
  by (simp add: str_int_def digits.simps)

theorem record_attempt_deduplicates_witness:
  "snd (PerformanceMetrics_init ''grasp_metrics.csv'' fs0) (output_path store0) = Some (header # [])
   \<and> count_list [] (map str_int [4, - 2, 30]) \<le> 1
   \<and> map str_int [4, - 2, 30] \<notin> set []
   \<and> map str_int [4, - 2, 31] \<notin> set []
   \<and> map str_int [4, - 2, 31] \<noteq> map str_int [4, - 2, 30]
   \<and> record_attempt str_int store0 [4, - 2, 30]
        (fst (record_attempt str_int store0 [4, - 2, 30]
               (snd (PerformanceMetrics_init ''grasp_metrics.csv'' fs0))))
      = ((snd (PerformanceMetrics_init ''grasp_metrics.csv'' fs0))
           (''grasp_metrics.csv'' \<mapsto> [header, [''4'', ''-2'', ''30'']]),
         [duplicate_warning])
   \<and> count_list
        (data_rows (fst (record_attempt str_int store0 [4, - 2, 30]
               (fst (record_attempt str_int store0 [4, - 2, 30]
                      (snd (PerformanceMetrics_init ''grasp_metrics.csv'' fs0))))))
           ''grasp_metrics.csv'') [''4'', ''-2'', ''30''] = 1
   \<and> data_rows (fst (record_attempt str_int store0 [4, - 2, 31]
               (fst (record_attempt str_int store0 [4, - 2, 30]
                      (snd (PerformanceMetrics_init ''grasp_metrics.csv'' fs0))))))
        ''grasp_metrics.csv''
      = [[''4'', ''-2'', ''30''], [''4'', ''-2'', ''31'']]"
proof -
  let ?fs = "snd (PerformanceMetrics_init ''grasp_metrics.csv'' fs0)"
  have h: "?fs (output_path store0) = Some (header # [])"
    by (simp add: PerformanceMetrics_init_def initialize_csv_def isfile_def fs0_def store0_def
          Let_def)
  have s: "str_int 4 = ''4''" "str_int (- 2) = ''-2''" "str_int 30 = ''30''" "str_int 31 = ''31''"
    by (simp_all add: str_int_def digits.simps)
  have p: "output_path store0 = ''grasp_metrics.csv''" by (simp add: store0_def)
  note t = record_attempt_deduplicates
         [where fs = ?fs and self = store0 and hdr = header and rows = "[]"
            and str = str_int and r = "[4, - 2, 30]" and r' = "[4, - 2, 31]", OF h]
  have first: "record_attempt str_int store0 [4, - 2, 30] ?fs
                 = (?fs(''grasp_metrics.csv'' \<mapsto> [header, [''4'', ''-2'', ''30'']]), [])"
    using t [THEN conjunct2, THEN conjunct2, THEN conjunct1] by (simp add: s p)
  have second: "record_attempt str_int store0 [4, - 2, 30]
                  (fst (record_attempt str_int store0 [4, - 2, 30] ?fs))
                 = (fst (record_attempt str_int store0 [4, - 2, 30] ?fs), [duplicate_warning])"
    using t [THEN conjunct1] .
  have both: "data_rows (fst (record_attempt str_int store0 [4, - 2, 31]
                 (fst (record_attempt str_int store0 [4, - 2, 30] ?fs)))) ''grasp_metrics.csv''
               = [[''4'', ''-2'', ''30''], [''4'', ''-2'', ''31'']]"
    using t [THEN conjunct2, THEN conjunct2, THEN conjunct2] by (simp add: s p)
  have once: "count_list
        (data_rows (fst (record_attempt str_int store0 [4, - 2, 30]
               (fst (record_attempt str_int store0 [4, - 2, 30] ?fs)))) ''grasp_metrics.csv'')
        [''4'', ''-2'', ''30''] = 1"
    using t [THEN conjunct2, THEN conjunct1] by (simp add: s p)
  have "record_attempt str_int store0 [4, - 2, 30]
          (fst (record_attempt str_int store0 [4, - 2, 30] ?fs))
        = (?fs(''grasp_metrics.csv'' \<mapsto> [header, [''4'', ''-2'', ''30'']]), [duplicate_warning])"
    by (subst second) (simp add: first)
  with both once h show ?thesis by (simp add: s)
qed

section \<open>Opening and closing\<close>

lemma for_each_calls: "for_each xs (\<lambda>x. io_call (c x)) = (map c xs, Inr ())"
  by (induction xs) (simp_all add: io_return_def)

lemma for_each_calls2:
  "for_each xs (\<lambda>x. io_then (io_call (c x)) (io_call (d x)))
     = (concat (map (\<lambda>x. [c x, d x]) xs), Inr ())"
proof (induction xs)
  case Nil
  show ?case by (simp add: io_return_def)
next
  case (Cons x xs)
  have "io_then (io_call (c x)) (io_call (d x)) = ([c x, d x], Inr ())"
    by (simp add: io_call_def)
  with Cons show ?case by simp
qed

lemma zip_const_left: "zip [a, a] js = map (Pair a) (take 2 js)"
proof (cases js)
  case Nil
  then show ?thesis by simp
next
  case (Cons x xs)
  then show ?thesis by (cases xs) simp_all
qed

lemma zip_const_right: "zip js [a, a] = map (\<lambda>j. (j, a)) (take 2 js)"
proof (cases js)
  case Nil
  then show ?thesis by simp
next
  case (Cons x xs)
  then show ?thesis by (cases xs) simp_all
qed

lemma sim_step_trace:
  assumes "0 \<le> d" and "d < sleep_limit"
  shows "sim_step n d = (concat (replicate (nat n) [StepSimulation, Sleep d]), Inr ())"
proof -
  have "io_then (io_call StepSimulation) (time_sleep d) = ([StepSimulation, Sleep d], Inr ())"
    using assms by (simp add: time_sleep_nonneg io_call_def)
  then show ?thesis by (simp add: sim_step_def for_each_const)
qed

text \<open>The traces of the open and close methods.\<close>

lemma activate_trace:
  "activate m =
     (map (\<lambda>j. SetJointMotorControl2 (body_id m) j POSITION_CONTROL 0.548 500)
        (take 2 (movable_joints m)), Inr ())"
  by (simp add: activate_def zip_const_right case_prod_unfold for_each_calls comp_def)

lemma deactivate_trace:
  "deactivate m =
     (map (\<lambda>j. SetJointMotorControl2 (body_id m) j POSITION_CONTROL 0 500)
        (take 2 (movable_joints m)), Inr ())"
  by (simp add: deactivate_def zip_const_right case_prod_unfold for_each_calls comp_def)

lemma PR2Gripper_open_trace:
  "PR2Gripper_open_gripper g =
     (map (\<lambda>j. SetJointMotorControl2 (gripper g) j POSITION_CONTROL 0.548 100)
        (take 2 (active_joints g))
      @ concat (replicate 200 [StepSimulation, Sleep 0.005]), Inr ())"
  by (simp add: PR2Gripper_open_gripper_def zip_const_left case_prod_unfold for_each_calls
        comp_def sim_step_trace sleep_limit_def)

lemma PR2Gripper_close_trace:
  "PR2Gripper_close_gripper g =
     (map (\<lambda>j. SetJointMotorControl2 (gripper g) j POSITION_CONTROL 0 500)
        (take 2 (active_joints g))
      @ map (\<lambda>j. ChangeDynamics (gripper g) j None (Some 1) None) (active_joints g)
      @ concat (replicate 200 [StepSimulation, Sleep 0.005]), Inr ())"
  by (simp add: PR2Gripper_close_gripper_def zip_const_left case_prod_unfold for_each_calls
        comp_def sim_step_trace sleep_limit_def)

lemma SDHGripper_open_trace:
  "SDHGripper_open_gripper g =
     (map (\<lambda>j. SetJointMotorControl2 (gripper g) j POSITION_CONTROL (- 0.5) 100)
        (active_joints g)
      @ concat (replicate 200 [StepSimulation, Sleep 0.005]), Inr ())"
  by (simp add: SDHGripper_open_gripper_def for_each_calls sim_step_trace sleep_limit_def)

lemma SDHGripper_close_trace:
  "SDHGripper_close_gripper g =
     (concat (map (\<lambda>j. [SetJointMotorControl2 (gripper g) j POSITION_CONTROL 1 500,
                           ChangeDynamics (gripper g) j None (Some 1) None])
        (active_joints g))
      @ concat (replicate 200 [StepSimulation, Sleep 0.005]), Inr ())"
  by (simp add: SDHGripper_close_gripper_def for_each_calls2 sim_step_trace sleep_limit_def)

text \<open>What a trace does to the commanded state.\<close>

lemma foldl_ticks [simp]:
  "foldl apply_call s (concat (replicate n [StepSimulation, Sleep d])) = s"
  by (induction n) simp_all

lemma motor_set_joints:
  "motor (foldl apply_call s (map (\<lambda>j. SetJointMotorControl2 b j m t f) js))
     = (\<lambda>k. if k \<in> Pair b ` set js then Some (m, t, f) else motor s k)"
  by (induction js arbitrary: s) (auto simp: fun_eq_iff)

lemma friction_set_joints [simp]:
  "lateral_friction (foldl apply_call s (map (\<lambda>j. SetJointMotorControl2 b j m t f) js))
     = lateral_friction s"
  by (induction js arbitrary: s) simp_all

lemma friction_change_dynamics:
  "lateral_friction (foldl apply_call s (map (\<lambda>j. ChangeDynamics b j None (Some fr) None) js))
     = (\<lambda>k. if k \<in> Pair b ` set js then Some fr else lateral_friction s k)"
  by (induction js arbitrary: s) (auto simp: fun_eq_iff)

lemma motor_change_dynamics [simp]:
  "motor (foldl apply_call s (map (\<lambda>j. ChangeDynamics b j None (Some fr) None) js)) = motor s"
  by (induction js arbitrary: s) simp_all

lemma motor_set_and_change:
  "motor (foldl apply_call s
      (concat (map (\<lambda>j. [SetJointMotorControl2 b j m t f, ChangeDynamics b j None (Some fr) None]) js)))
     = (\<lambda>k. if k \<in> Pair b ` set js then Some (m, t, f) else motor s k)"
  by (induction js arbitrary: s) (auto simp: fun_eq_iff)

lemma friction_set_and_change:
  "lateral_friction (foldl apply_call s
      (concat (map (\<lambda>j. [SetJointMotorControl2 b j m t f, ChangeDynamics b j None (Some fr) None]) js)))
     = (\<lambda>k. if k \<in> Pair b ` set js then Some fr else lateral_friction s k)"
  by (induction js arbitrary: s) (auto simp: fun_eq_iff)

text \<open>Running any trace a second time changes nothing: each key keeps its last write.\<close>

lemma motor_foldl_add:
  "motor (foldl apply_call s cs) = motor s ++ motor (foldl apply_call commanded0 cs)"
proof (induction cs rule: rev_induct)
  case Nil
  show ?case by (simp add: commanded0_def)
next
  case (snoc c cs)
  show ?case
  proof (cases c)
    case (SetJointMotorControl2 b j m t f)
    with snoc show ?thesis by (auto simp: fun_eq_iff map_add_def)
  next
    case (ChangeDynamics b l m fr sp)
    with snoc show ?thesis by (cases fr) (auto simp: fun_eq_iff map_add_def)
  qed (use snoc in simp_all)
qed

lemma friction_foldl_add:
  "lateral_friction (foldl apply_call s cs)
     = lateral_friction s ++ lateral_friction (foldl apply_call commanded0 cs)"
proof (induction cs rule: rev_induct)
  case Nil
  show ?case by (simp add: commanded0_def)
next
  case (snoc c cs)
  show ?case
  proof (cases c)
    case (SetJointMotorControl2 b j m t f)
    with snoc show ?thesis by (auto simp: fun_eq_iff map_add_def)
  next
    case (ChangeDynamics b l m fr sp)
    with snoc show ?thesis by (cases fr) (auto simp: fun_eq_iff map_add_def)
  qed (use snoc in simp_all)
qed

lemma map_add_twice: "(m ++ n) ++ n = m ++ n"
  by (simp add: map_add_def fun_eq_iff split: option.splits)

lemma foldl_apply_call_twice:
  "foldl apply_call (foldl apply_call s cs) cs = foldl apply_call s cs"
proof (rule commanded.equality)
  show "motor (foldl apply_call (foldl apply_call s cs) cs) = motor (foldl apply_call s cs)"
    by (subst motor_foldl_add) (subst (1 2) motor_foldl_add [of s], rule map_add_twice)
  show "lateral_friction (foldl apply_call (foldl apply_call s cs) cs)
          = lateral_friction (foldl apply_call s cs)"
    by (subst friction_foldl_add) (subst (1 2) friction_foldl_add [of s], rule map_add_twice)
qed simp

lemma after_twice:
  "returns m \<Longrightarrow> after (io_then m m) s = after m s \<and> returns (io_then m m)"
  by (cases m; cases "snd m")
     (auto simp: after_def returns_def io_then_def io_bind_def foldl_apply_call_twice)

lemma returns_open_close:
  "returns (activate m)" "returns (deactivate m)"
  "returns (open_gripper g)" "returns (close_gripper g)"
  by (simp_all add: returns_def activate_trace deactivate_trace open_gripper_def close_gripper_def
        PR2Gripper_open_trace PR2Gripper_close_trace SDHGripper_open_trace SDHGripper_close_trace
        CustomGripper_open_gripper_def CustomGripper_close_gripper_def io_call_def
        split: gripper_class.split)

lemma after_open_close:
  "motor (after (activate m) s)
     = (\<lambda>k. if k \<in> Pair (body_id m) ` set (take 2 (movable_joints m))
             then Some (POSITION_CONTROL, 0.548, 500) else motor s k)"
  "motor (after (deactivate m) s)
     = (\<lambda>k. if k \<in> Pair (body_id m) ` set (take 2 (movable_joints m))
             then Some (POSITION_CONTROL, 0, 500) else motor s k)"
  "motor (after (PR2Gripper_open_gripper g) s)
     = (\<lambda>k. if k \<in> Pair (gripper g) ` set (take 2 (active_joints g))
             then Some (POSITION_CONTROL, 0.548, 100) else motor s k)"
  "motor (after (SDHGripper_open_gripper g) s)
     = (\<lambda>k. if k \<in> Pair (gripper g) ` set (active_joints g)
             then Some (POSITION_CONTROL, - 0.5, 100) else motor s k)"
  "motor (after (PR2Gripper_close_gripper g) s)
     = (\<lambda>k. if k \<in> Pair (gripper g) ` set (take 2 (active_joints g))
             then Some (POSITION_CONTROL, 0, 500) else motor s k)"
  "motor (after (SDHGripper_close_gripper g) s)
     = (\<lambda>k. if k \<in> Pair (gripper g) ` set (active_joints g)
             then Some (POSITION_CONTROL, 1, 500) else motor s k)"
  "lateral_friction (after (PR2Gripper_close_gripper g) s)
     = (\<lambda>k. if k \<in> Pair (gripper g) ` set (active_joints g)
             then Some 1 else lateral_friction s k)"
  "lateral_friction (after (SDHGripper_close_gripper g) s)
     = (\<lambda>k. if k \<in> Pair (gripper g) ` set (active_joints g)
             then Some 1 else lateral_friction s k)"
  "after (CustomGripper_open_gripper g) s = s"
  "after (CustomGripper_close_gripper g) s = s"
  "lateral_friction (after (deactivate m) s) = lateral_friction s"
  by (simp_all add: after_def activate_trace deactivate_trace PR2Gripper_open_trace
        SDHGripper_open_trace PR2Gripper_close_trace SDHGripper_close_trace
        motor_set_joints friction_change_dynamics motor_set_and_change friction_set_and_change
        CustomGripper_open_gripper_def CustomGripper_close_gripper_def io_call_def
      cong: if_cong)

text \<open>
  C7. For the two-finger manipulator and for every gripper class, the joint targets (and
  friction) commanded after \<open>activate()\<close> / \<open>open_gripper()\<close> has been called twice in
  succession are those commanded after one call, from any earlier commanded state; both
  calls return. The open targets are 0.548 on the first two actuated joints (two-finger,
  PR2), -0.5 on every actuated joint (SDH), and none for the placeholder.
\<close>

theorem activate_idempotent:
  "after (io_then (activate m) (activate m)) s = after (activate m) s
   \<and> returns (io_then (activate m) (activate m))
   \<and> after (io_then (open_gripper g) (open_gripper g)) s = after (open_gripper g) s
   \<and> returns (io_then (open_gripper g) (open_gripper g))
   \<and> motor (after (activate m) s)
       = (\<lambda>k. if k \<in> Pair (body_id m) ` set (take 2 (movable_joints m))
               then Some (POSITION_CONTROL, 0.548, 500) else motor s k)
   \<and> motor (after (open_gripper g) s)
       = (case gripper_class g of
            PR2Gripper \<Rightarrow>
              (\<lambda>k. if k \<in> Pair (gripper g) ` set (take 2 (active_joints g))
                    then Some (POSITION_CONTROL, 0.548, 100) else motor s k)
          | SDHGripper \<Rightarrow>
              (\<lambda>k. if k \<in> Pair (gripper g) ` set (active_joints g)
                    then Some (POSITION_CONTROL, - 0.5, 100) else motor s k)
          | CustomGripper \<Rightarrow> motor s)"
proof -
  have "motor (after (open_gripper g) s)
       = (case gripper_class g of
            PR2Gripper \<Rightarrow>
              (\<lambda>k. if k \<in> Pair (gripper g) ` set (take 2 (active_joints g))
                    then Some (POSITION_CONTROL, 0.548, 100) else motor s k)
          | SDHGripper \<Rightarrow>
              (\<lambda>k. if k \<in> Pair (gripper g) ` set (active_joints g)
                    then Some (POSITION_CONTROL, - 0.5, 100) else motor s k)
          | CustomGripper \<Rightarrow> motor s)"
    by (cases "gripper_class g") (simp_all add: open_gripper_def after_open_close)
  then show ?thesis
    using after_twice [OF returns_open_close(1), of m s]
          after_twice [OF returns_open_close(3), of g s]
    by (simp add: after_open_close)
qed

text \<open>
  C5 (as the code has it). \<open>PR2Gripper.close_gripper\<close> commands position target 0.0
  with force 500 on the first two actuated joints and lateral friction 1.0 on every
  actuated joint; \<open>SDHGripper.close_gripper\<close> commands position target 1.0 with force
  500 and lateral friction 1.0 on every actuated joint; \<open>CustomGripper.close_gripper\<close>
  is a placeholder that commands nothing; \<open>TwoFingerManipulator.deactivate\<close> commands
  position target 0.0 with force 500 on the first two movable joints. For each of them a
  second call returns and leaves the commanded state of the first.
\<close>

theorem deactivate_closes:
  "motor (after (close_gripper g) s)
     = (case gripper_class g of
          PR2Gripper \<Rightarrow>
            (\<lambda>k. if k \<in> Pair (gripper g) ` set (take 2 (active_joints g))
                  then Some (POSITION_CONTROL, 0, 500) else motor s k)
        | SDHGripper \<Rightarrow>
            (\<lambda>k. if k \<in> Pair (gripper g) ` set (active_joints g)
                  then Some (POSITION_CONTROL, 1, 500) else motor s k)
        | CustomGripper \<Rightarrow> motor s)
   \<and> lateral_friction (after (close_gripper g) s)
     = (case gripper_class g of
          PR2Gripper \<Rightarrow>
            (\<lambda>k. if k \<in> Pair (gripper g) ` set (active_joints g)
                  then Some 1 else lateral_friction s k)
        | SDHGripper \<Rightarrow>
            (\<lambda>k. if k \<in> Pair (gripper g) ` set (active_joints g)
                  then Some 1 else lateral_friction s k)
        | CustomGripper \<Rightarrow> lateral_friction s)
   \<and> motor (after (deactivate m) s)
     = (\<lambda>k. if k \<in> Pair (body_id m) ` set (take 2 (movable_joints m))
             then Some (POSITION_CONTROL, 0, 500) else motor s k)
   \<and> after (io_then (close_gripper g) (close_gripper g)) s = after (close_gripper g) s
   \<and> returns (io_then (close_gripper g) (close_gripper g))
   \<and> after (io_then (deactivate m) (deactivate m)) s = after (deactivate m) s
   \<and> returns (io_then (deactivate m) (deactivate m))"
proof -
  have "motor (after (close_gripper g) s)
     = (case gripper_class g of
          PR2Gripper \<Rightarrow>
            (\<lambda>k. if k \<in> Pair (gripper g) ` set (take 2 (active_joints g))
                  then Some (POSITION_CONTROL, 0, 500) else motor s k)
        | SDHGripper \<Rightarrow>
            (\<lambda>k. if k \<in> Pair (gripper g) ` set (active_joints g)
                  then Some (POSITION_CONTROL, 1, 500) else motor s k)
        | CustomGripper \<Rightarrow> motor s)"
    by (cases "gripper_class g") (simp_all add: close_gripper_def after_open_close)
  moreover have "lateral_friction (after (close_gripper g) s)
     = (case gripper_class g of
          PR2Gripper \<Rightarrow>
            (\<lambda>k. if k \<in> Pair (gripper g) ` set (active_joints g)
                  then Some 1 else lateral_friction s k)
        | SDHGripper \<Rightarrow>
            (\<lambda>k. if k \<in> Pair (gripper g) ` set (active_joints g)
                  then Some 1 else lateral_friction s k)
        | CustomGripper \<Rightarrow> lateral_friction s)"
    by (cases "gripper_class g") (simp_all add: close_gripper_def after_open_close)
  ultimately show ?thesis
    using after_twice [OF returns_open_close(2), of m s]
          after_twice [OF returns_open_close(4), of g s]
    by (simp add: after_open_close)
qed

text \<open>
  C5 as stated fails: closing the placeholder gripper leaves its actuated joint 0 without
  target and without friction; \<open>TwoFingerManipulator.deactivate\<close> sets no friction on
  its movable joint 0; a PR2 gripper with three actuated joints gets no target on the
  third.
\<close>

theorem deactivate_not_all_variants:
  "motor (after (close_gripper (gripper0 CustomGripper [0, 1])) commanded0) (7, 0) = None
   \<and> lateral_friction (after (close_gripper (gripper0 CustomGripper [0, 1])) commanded0) (7, 0)
       = None
   \<and> lateral_friction (after (deactivate manipulator0) commanded0) (7, 0) = None
   \<and> motor (after (close_gripper (gripper0 PR2Gripper [0, 1, 2])) commanded0) (7, 2) = None"
  by (simp add: close_gripper_def after_open_close gripper0_def commanded0_def
        manipulator0_def)

section \<open>Factories\<close>

lemma BaseGripper_init_closed:
  "BaseGripper_init p cls pos orn file =
     (case loadURDF p file of
        None \<Rightarrow> ([LoadURDF file pos orn False], Inl (PyBulletError ''Cannot load URDF file.''))
      | Some b \<Rightarrow>
          ([LoadURDF file pos orn False, ChangeDynamics b (- 1) (Some 0) None None],
           Inr \<lparr>gripper_class = cls, position = pos, orientation = orn, urdf_file = file,
                gripper = b, active_joints = fst (get_joint_info p b),
                fixed_joints = snd (get_joint_info p b)\<rparr>))"
  by (simp add: BaseGripper_init_def load_urdf_def io_bind_def io_then_def io_call_def
        io_return_def case_prod_unfold split: option.split)

lemma SDHGripper_init_closed:
  "SDHGripper_init d p pos orn =
     (let file = path_join (path_join d ''models'') ''sdh.urdf'' in
      case loadURDF p file of
        None \<Rightarrow> ([LoadURDF file pos orn False], Inl (PyBulletError ''Cannot load URDF file.''))
      | Some b \<Rightarrow>
          ([LoadURDF file pos orn False, ChangeDynamics b (- 1) (Some 0) None None]
             @ concat (map (\<lambda>j. [ResetJointState b j (- 0.5),
                                   SetJointMotorControl2 b j POSITION_CONTROL (- 0.5) 100])
                  (fst (get_joint_info p b))),
           Inr \<lparr>gripper_class = SDHGripper, position = pos, orientation = orn, urdf_file = file,
                gripper = b, active_joints = fst (get_joint_info p b),
                fixed_joints = snd (get_joint_info p b)\<rparr>))"
  by (simp add: SDHGripper_init_def BaseGripper_init_closed Let_def io_bind_def for_each_calls2
        io_return_def split: option.split)

lemma gripper_init_class:
  "snd (PR2Gripper_init p pos orn) = Inr g \<Longrightarrow> gripper_class g = PR2Gripper"
  "snd (SDHGripper_init d p pos orn) = Inr g \<Longrightarrow> gripper_class g = SDHGripper"
  "snd (CustomGripper_init p pos orn) = Inr g \<Longrightarrow> gripper_class g = CustomGripper"
  by (auto simp: PR2Gripper_init_def CustomGripper_init_def BaseGripper_init_closed
        SDHGripper_init_closed Let_def split: option.splits)

lemma gripper_init_no_ValueError:
  "\<not> raises_ValueError (PR2Gripper_init p pos orn)"
  "\<not> raises_ValueError (SDHGripper_init d p pos orn)"
  "\<not> raises_ValueError (CustomGripper_init p pos orn)"
  by (simp_all add: raises_ValueError_def PR2Gripper_init_def CustomGripper_init_def
        BaseGripper_init_closed SDHGripper_init_closed Let_def split: option.split)

lemma object_init_class:
  "snd (CuboidObject_init p kw) = Inr ob \<Longrightarrow> object_class ob = CuboidObject"
  "snd (CylinderObject_init p kw) = Inr ob \<Longrightarrow> object_class ob = CylinderObject"
  by (auto simp: CuboidObject_init_def CylinderObject_init_def create_object_body_def Let_def
        io_raise_def split: if_splits)

lemma object_init_no_ValueError:
  "\<not> raises_ValueError (CuboidObject_init p kw)"
  "\<not> raises_ValueError (CylinderObject_init p kw)"
  by (simp_all add: raises_ValueError_def CuboidObject_init_def CylinderObject_init_def
        create_object_body_def Let_def io_raise_def)

lemma gripper_init_returns:
  "returns (PR2Gripper_init p pos orn) \<longleftrightarrow> loadURDF p ''pr2_gripper.urdf'' \<noteq> None"
  "returns (SDHGripper_init d p pos orn)
     \<longleftrightarrow> loadURDF p (path_join (path_join d ''models'') ''sdh.urdf'') \<noteq> None"
  "returns (CustomGripper_init p pos orn) \<longleftrightarrow> loadURDF p ''custom_gripper.urdf'' \<noteq> None"
  by (auto simp: returns_def PR2Gripper_init_def CustomGripper_init_def BaseGripper_init_closed
        SDHGripper_init_closed Let_def split: option.splits)

lemma object_init_returns:
  "returns (CuboidObject_init p kw) \<longleftrightarrow> kw_radius kw = None \<and> kw_other kw = []"
  "returns (CylinderObject_init p kw)
     \<longleftrightarrow> kw_width kw = None \<and> kw_depth kw = None \<and> kw_other kw = []"
  by (auto simp: returns_def CuboidObject_init_def CylinderObject_init_def create_object_body_def
        Let_def io_raise_def)

lemma gripper_tag_cases:
  "t \<in> set gripper_supported_types \<longleftrightarrow> t = ''pr2'' \<or> t = ''sdh'' \<or> t = ''custom''"
  by (auto simp: gripper_supported_types_def)

lemma object_tag_cases:
  "t \<in> set object_supported_types \<longleftrightarrow> t = ''cuboid'' \<or> t = ''cylinder''"
  by (auto simp: object_supported_types_def)

lemma create_gripper_unsupported:
  assumes "lower t \<notin> set gripper_supported_types"
  shows "raises_ValueError (create_gripper d p t pos orn)"
    and "fst (create_gripper d p t pos orn) = []"
  using assms
  by (simp_all add: gripper_tag_cases create_gripper_def Let_def raises_ValueError_def io_raise_def)

lemma create_gripper_supported:
  assumes "lower t \<in> set gripper_supported_types"
  shows "create_gripper d p t pos orn =
           (if lower t = ''pr2'' then PR2Gripper_init p pos orn
            else if lower t = ''sdh'' then SDHGripper_init d p pos orn
            else CustomGripper_init p pos orn)"
  using assms by (auto simp: gripper_tag_cases create_gripper_def Let_def)

lemma select_gripper_unsupported:
  assumes "t \<notin> set gripper_supported_types"
  shows "raises_ValueError (select_gripper d p t pos orn)"
    and "fst (select_gripper d p t pos orn) = []"
  using assms
  by (simp_all add: gripper_tag_cases select_gripper_def raises_ValueError_def io_raise_def)

lemma select_gripper_supported:
  assumes "t \<in> set gripper_supported_types"
  shows "select_gripper d p t pos orn =
           (if t = ''pr2'' then PR2Gripper_init p pos orn
            else if t = ''sdh'' then SDHGripper_init d p pos orn
            else CustomGripper_init p pos orn)"
  using assms by (auto simp: gripper_tag_cases select_gripper_def)

lemma create_object_unsupported:
  assumes "lower t \<notin> set object_supported_types"
  shows "raises_ValueError (create_object p t kw)"
    and "fst (create_object p t kw) = []"
  using assms
  by (simp_all add: object_tag_cases create_object_def Let_def raises_ValueError_def io_raise_def)

lemma create_object_supported:
  assumes "lower t \<in> set object_supported_types"
  shows "create_object p t kw =
           (if lower t = ''cuboid'' then CuboidObject_init p kw else CylinderObject_init p kw)"
  using assms by (auto simp: object_tag_cases create_object_def Let_def)

text \<open>
  C6. For every type string whose lower-case form is not a supported tag,
  \<open>GripperFactory.create_gripper\<close> and \<open>ObjectFactory.create_object\<close> raise
  \<open>ValueError\<close> having issued no engine call at all; for a supported tag the dispatch
  raises no \<open>ValueError\<close> and the call is the constructor call of the corresponding
  class, whose instance is of that class; the constructor returns it exactly when the
  engine loads the gripper model, respectively when the keyword arguments are ones the
  object class accepts.
\<close>

theorem factories_dispatch:
  "(lower gripper_type \<notin> set gripper_supported_types \<longrightarrow>
      raises_ValueError (create_gripper d p gripper_type pos orn)
      \<and> fst (create_gripper d p gripper_type pos orn) = [])
   \<and> (lower gripper_type \<in> set gripper_supported_types \<longrightarrow>
        \<not> raises_ValueError (create_gripper d p gripper_type pos orn)
        \<and> create_gripper d p gripper_type pos orn =
            (if lower gripper_type = ''pr2'' then PR2Gripper_init p pos orn
             else if lower gripper_type = ''sdh'' then SDHGripper_init d p pos orn
             else CustomGripper_init p pos orn)
        \<and> (\<forall>g. snd (create_gripper d p gripper_type pos orn) = Inr g \<longrightarrow>
              gripper_class g =
                (if lower gripper_type = ''pr2'' then PR2Gripper
                 else if lower gripper_type = ''sdh'' then SDHGripper
                 else CustomGripper))
        \<and> (returns (create_gripper d p gripper_type pos orn) \<longleftrightarrow>
              loadURDF p
                (if lower gripper_type = ''pr2'' then ''pr2_gripper.urdf''
                 else if lower gripper_type = ''sdh''
                   then path_join (path_join d ''models'') ''sdh.urdf''
                 else ''custom_gripper.urdf'') \<noteq> None))
   \<and> (lower object_type \<notin> set object_supported_types \<longrightarrow>
        raises_ValueError (create_object p object_type kw)
        \<and> fst (create_object p object_type kw) = [])
   \<and> (lower object_type \<in> set object_supported_types \<longrightarrow>
        \<not> raises_ValueError (create_object p object_type kw)
        \<and> create_object p object_type kw =
            (if lower object_type = ''cuboid'' then CuboidObject_init p kw
             else CylinderObject_init p kw)
        \<and> (\<forall>ob. snd (create_object p object_type kw) = Inr ob \<longrightarrow>
              object_class ob =
                (if lower object_type = ''cuboid'' then CuboidObject else CylinderObject))
        \<and> (returns (create_object p object_type kw) \<longleftrightarrow>
              kw_other kw = []
              \<and> (if lower object_type = ''cuboid'' then kw_radius kw = None
                  else kw_width kw = None \<and> kw_depth kw = None)))"
proof -
  have g1: "lower gripper_type \<notin> set gripper_supported_types \<longrightarrow>
      raises_ValueError (create_gripper d p gripper_type pos orn)
      \<and> fst (create_gripper d p gripper_type pos orn) = []"
    by (simp add: create_gripper_unsupported)
  have g2: "lower gripper_type \<in> set gripper_supported_types \<longrightarrow>
        \<not> raises_ValueError (create_gripper d p gripper_type pos orn)
        \<and> create_gripper d p gripper_type pos orn =
            (if lower gripper_type = ''pr2'' then PR2Gripper_init p pos orn
             else if lower gripper_type = ''sdh'' then SDHGripper_init d p pos orn
             else CustomGripper_init p pos orn)
        \<and> (\<forall>g. snd (create_gripper d p gripper_type pos orn) = Inr g \<longrightarrow>
              gripper_class g =
                (if lower gripper_type = ''pr2'' then PR2Gripper
                 else if lower gripper_type = ''sdh'' then SDHGripper
                 else CustomGripper))
        \<and> (returns (create_gripper d p gripper_type pos orn) \<longleftrightarrow>
              loadURDF p
                (if lower gripper_type = ''pr2'' then ''pr2_gripper.urdf''
                 else if lower gripper_type = ''sdh''
                   then path_join (path_join d ''models'') ''sdh.urdf''
                 else ''custom_gripper.urdf'') \<noteq> None)"
    by (auto simp: create_gripper_supported gripper_init_no_ValueError gripper_init_class
          gripper_init_returns)
  have o1: "lower object_type \<notin> set object_supported_types \<longrightarrow>
        raises_ValueError (create_object p object_type kw)
        \<and> fst (create_object p object_type kw) = []"
    by (simp add: create_object_unsupported)
  have o2: "lower object_type \<in> set object_supported_types \<longrightarrow>
        \<not> raises_ValueError (create_object p object_type kw)
        \<and> create_object p object_type kw =
            (if lower object_type = ''cuboid'' then CuboidObject_init p kw
             else CylinderObject_init p kw)
        \<and> (\<forall>ob. snd (create_object p object_type kw) = Inr ob \<longrightarrow>
              object_class ob =
                (if lower object_type = ''cuboid'' then CuboidObject else CylinderObject))
        \<and> (returns (create_object p object_type kw) \<longleftrightarrow>
              kw_other kw = []
              \<and> (if lower object_type = ''cuboid'' then kw_radius kw = None
                  else kw_width kw = None \<and> kw_depth kw = None))"
    by (auto simp: create_object_supported object_init_no_ValueError object_init_class
          object_init_returns)
  from g1 g2 o1 o2 show ?thesis by blast
qed

text \<open>
  C9 (as the code has it). \<open>create_gripper(t, ...)\<close> behaves as
  \<open>select_gripper(t.lower(), ...)\<close>: for a supported lower-case form both make the same
  constructor call, otherwise both raise \<open>ValueError\<close> before any engine call. The two
  therefore agree on every \<open>gripper_type\<close> that is its own lower-case form.
\<close>

theorem create_gripper_is_select_gripper_lower:
  "(lower gripper_type \<in> set gripper_supported_types \<longrightarrow>
      create_gripper d p gripper_type pos orn = select_gripper d p (lower gripper_type) pos orn)
   \<and> (lower gripper_type \<notin> set gripper_supported_types \<longrightarrow>
        raises_ValueError (create_gripper d p gripper_type pos orn)
        \<and> raises_ValueError (select_gripper d p (lower gripper_type) pos orn)
        \<and> fst (create_gripper d p gripper_type pos orn) = []
        \<and> fst (select_gripper d p (lower gripper_type) pos orn) = [])
   \<and> (lower gripper_type = gripper_type \<longrightarrow>
        create_gripper d p gripper_type pos orn = select_gripper d p gripper_type pos orn
        \<or> raises_ValueError (create_gripper d p gripper_type pos orn)
          \<and> raises_ValueError (select_gripper d p gripper_type pos orn))"
proof -
  have a: "lower gripper_type \<in> set gripper_supported_types \<longrightarrow>
      create_gripper d p gripper_type pos orn = select_gripper d p (lower gripper_type) pos orn"
    by (simp add: create_gripper_supported select_gripper_supported)
  have b: "lower gripper_type \<notin> set gripper_supported_types \<longrightarrow>
        raises_ValueError (create_gripper d p gripper_type pos orn)
        \<and> raises_ValueError (select_gripper d p (lower gripper_type) pos orn)
        \<and> fst (create_gripper d p gripper_type pos orn) = []
        \<and> fst (select_gripper d p (lower gripper_type) pos orn) = []"
    by (simp add: create_gripper_unsupported select_gripper_unsupported)
  from a b show ?thesis by metis
qed

text \<open>
  C9 as stated fails on \<open>"PR2"\<close>: \<open>select_gripper\<close> compares the string as given and
  raises \<open>ValueError\<close>, the factory lower-cases it first and builds a PR2 gripper.
\<close>

theorem select_gripper_is_case_sensitive:
  "select_gripper ''/opt/grasp'' engine0 ''PR2'' [0, 0, 1] [0, 0, 0, 1] =
     ([], Inl (ValueError
        (''Unsupported gripper type. Supported types: '' @ [CHR 0x27] @ ''pr2'' @ [CHR 0x27]
          @ '', '' @ [CHR 0x27] @ ''sdh'' @ [CHR 0x27] @ '', '' @ [CHR 0x27] @ ''custom''
          @ [CHR 0x27] @ ''.'')))
   \<and> create_gripper ''/opt/grasp'' engine0 ''PR2'' [0, 0, 1] [0, 0, 0, 1] =
     ([LoadURDF ''pr2_gripper.urdf'' [0, 0, 1] [0, 0, 0, 1] False,
       ChangeDynamics 7 (- 1) (Some 0) None None],
      Inr \<lparr>gripper_class = PR2Gripper, position = [0, 0, 1], orientation = [0, 0, 0, 1],
           urdf_file = ''pr2_gripper.urdf'', gripper = 7, active_joints = [0, 1, 2],
           fixed_joints = []\<rparr>)"
  by (simp add: select_gripper_def create_gripper_def lower_def lower_char_def io_raise_def
        PR2Gripper_init_def BaseGripper_init_closed engine0_def get_joint_info_def py_range_def
        upto_rec1)

theorem factories_dispatch_witness:
  "lower ''Banana'' \<notin> set gripper_supported_types
   \<and> raises_ValueError (create_gripper ''/opt/grasp'' engine0 ''Banana'' [0, 0, 1] [0, 0, 0, 1])
   \<and> fst (create_gripper ''/opt/grasp'' engine0 ''Banana'' [0, 0, 1] [0, 0, 0, 1]) = []
   \<and> lower ''sphere'' \<notin> set object_supported_types
   \<and> raises_ValueError (create_object engine0 ''sphere'' kwargs0)
   \<and> fst (create_object engine0 ''sphere'' kwargs0) = []
   \<and> lower ''Custom'' \<in> set gripper_supported_types
   \<and> create_gripper ''/opt/grasp'' engine0 ''Custom'' [0, 0, 1] [0, 0, 0, 1]
       = CustomGripper_init engine0 [0, 0, 1] [0, 0, 0, 1]
   \<and> snd (create_gripper ''/opt/grasp'' engine0 ''Custom'' [0, 0, 1] [0, 0, 0, 1])
       = Inr \<lparr>gripper_class = CustomGripper, position = [0, 0, 1], orientation = [0, 0, 0, 1],
           urdf_file = ''custom_gripper.urdf'', gripper = 7, active_joints = [0, 1, 2],
           fixed_joints = []\<rparr>
   \<and> lower ''CYLINDER'' \<in> set object_supported_types
   \<and> create_object engine0 ''CYLINDER'' kwargs0 = CylinderObject_init engine0 kwargs0
   \<and> snd (create_object engine0 ''CYLINDER'' kwargs0)
       = Inr \<lparr>object_class = CylinderObject, height = 0.8, mass = 0.1, color = [1, 1, 1, 1],
           object_id = 8, width = None, depth = None, size_list = None, radius = Some 0.04\<rparr>"
proof -
  have l: "lower ''Banana'' = ''banana''" "lower ''sphere'' = ''sphere''"
    "lower ''Custom'' = ''custom''" "lower ''CYLINDER'' = ''cylinder''"
    by (simp_all add: lower_def lower_char_def)
  have m: "lower ''Banana'' \<notin> set gripper_supported_types"
    "lower ''sphere'' \<notin> set object_supported_types"
    "lower ''Custom'' \<in> set gripper_supported_types"
    "lower ''CYLINDER'' \<in> set object_supported_types"
    unfolding l by (simp_all add: gripper_supported_types_def object_supported_types_def)
  note bad = factories_dispatch
    [where gripper_type = "''Banana''" and object_type = "''sphere''" and d = "''/opt/grasp''"
       and p = engine0 and pos = "[0, 0, 1]" and orn = "[0, 0, 0, 1]" and kw = kwargs0]
  note good = factories_dispatch
    [where gripper_type = "''Custom''" and object_type = "''CYLINDER''" and d = "''/opt/grasp''"
       and p = engine0 and pos = "[0, 0, 1]" and orn = "[0, 0, 0, 1]" and kw = kwargs0]
  have b1: "raises_ValueError (create_gripper ''/opt/grasp'' engine0 ''Banana'' [0, 0, 1] [0, 0, 0, 1])
     \<and> fst (create_gripper ''/opt/grasp'' engine0 ''Banana'' [0, 0, 1] [0, 0, 0, 1]) = []"
    using bad m(1) by blast
  have b2: "raises_ValueError (create_object engine0 ''sphere'' kwargs0)
     \<and> fst (create_object engine0 ''sphere'' kwargs0) = []"
    using bad m(2) by blast
  have g1: "create_gripper ''/opt/grasp'' engine0 ''Custom'' [0, 0, 1] [0, 0, 0, 1]
       = CustomGripper_init engine0 [0, 0, 1] [0, 0, 0, 1]"
    using good [THEN conjunct2, THEN conjunct1] m(3) by (simp add: l)
  have g2: "create_object engine0 ''CYLINDER'' kwargs0 = CylinderObject_init engine0 kwargs0"
    using good [THEN conjunct2, THEN conjunct2, THEN conjunct2] m(4) by (simp add: l)
  have c1: "snd (CustomGripper_init engine0 [0, 0, 1] [0, 0, 0, 1])
       = Inr \<lparr>gripper_class = CustomGripper, position = [0, 0, 1], orientation = [0, 0, 0, 1],
           urdf_file = ''custom_gripper.urdf'', gripper = 7, active_joints = [0, 1, 2],
           fixed_joints = []\<rparr>"
    by (simp add: CustomGripper_init_def BaseGripper_init_closed engine0_def get_joint_info_def
          py_range_def upto_rec1)
  have c2: "snd (CylinderObject_init engine0 kwargs0)
       = Inr \<lparr>object_class = CylinderObject, height = 0.8, mass = 0.1, color = [1, 1, 1, 1],
           object_id = 8, width = None, depth = None, size_list = None, radius = Some 0.04\<rparr>"
    by (simp add: CylinderObject_init_def create_object_body_def kwargs0_def engine0_def
          default_def truthy_color_def Let_def)
  from m b1 b2 g1 g2 c1 c2 show ?thesis by simp
qed

theorem create_gripper_is_select_gripper_lower_witness:
  "lower ''SDH'' \<in> set gripper_supported_types
   \<and> create_gripper ''/opt/grasp'' engine0 ''SDH'' [0, 0, 1] [0, 0, 0, 1]
       = select_gripper ''/opt/grasp'' engine0 ''sdh'' [0, 0, 1] [0, 0, 0, 1]
   \<and> lower ''gripper'' \<notin> set gripper_supported_types
   \<and> lower ''gripper'' = ''gripper''
   \<and> raises_ValueError (create_gripper ''/opt/grasp'' engine0 ''gripper'' [0, 0, 1] [0, 0, 0, 1])
   \<and> raises_ValueError (select_gripper ''/opt/grasp'' engine0 ''gripper'' [0, 0, 1] [0, 0, 0, 1])
   \<and> lower ''pr2'' = ''pr2''
   \<and> create_gripper ''/opt/grasp'' engine0 ''pr2'' [0, 0, 1] [0, 0, 0, 1]
       = select_gripper ''/opt/grasp'' engine0 ''pr2'' [0, 0, 1] [0, 0, 0, 1]"
proof -
  have l: "lower ''SDH'' = ''sdh''" "lower ''gripper'' = ''gripper''" "lower ''pr2'' = ''pr2''"
    by (simp_all add: lower_def lower_char_def)
  have m: "lower ''SDH'' \<in> set gripper_supported_types"
    "lower ''gripper'' \<notin> set gripper_supported_types"
    "lower ''pr2'' \<in> set gripper_supported_types"
    unfolding l by (simp_all add: gripper_supported_types_def)
  have a: "create_gripper ''/opt/grasp'' engine0 ''SDH'' [0, 0, 1] [0, 0, 0, 1]
       = select_gripper ''/opt/grasp'' engine0 ''sdh'' [0, 0, 1] [0, 0, 0, 1]"
    using create_gripper_is_select_gripper_lower
      [where gripper_type = "''SDH''" and d = "''/opt/grasp''" and p = engine0
         and pos = "[0, 0, 1]" and orn = "[0, 0, 0, 1]", THEN conjunct1] m(1)
    by (simp add: l)
  have b: "raises_ValueError (create_gripper ''/opt/grasp'' engine0 ''gripper'' [0, 0, 1] [0, 0, 0, 1])
     \<and> raises_ValueError (select_gripper ''/opt/grasp'' engine0 ''gripper'' [0, 0, 1] [0, 0, 0, 1])"
    using create_gripper_is_select_gripper_lower
      [where gripper_type = "''gripper''" and d = "''/opt/grasp''" and p = engine0
         and pos = "[0, 0, 1]" and orn = "[0, 0, 0, 1]", THEN conjunct2, THEN conjunct1] m(2)
    by (simp add: l)
  have c: "create_gripper ''/opt/grasp'' engine0 ''pr2'' [0, 0, 1] [0, 0, 0, 1]
       = select_gripper ''/opt/grasp'' engine0 ''pr2'' [0, 0, 1] [0, 0, 0, 1]"
    using create_gripper_is_select_gripper_lower
      [where gripper_type = "''pr2''" and d = "''/opt/grasp''" and p = engine0
         and pos = "[0, 0, 1]" and orn = "[0, 0, 0, 1]", THEN conjunct1] m(3)
    by (simp add: l)
  from l m a b c show ?thesis by simp
qed

end
